theory Spec2Isabelle
  imports Main
begin

section \<open>The relational store\<close>

text \<open>
  Both programs of the repository (\<^verbatim>\<open>1.3_Transform.py\<close> and \<^verbatim>\<open>1.4_InitializeDW.py\<close>) are
  Python drivers that send SQL statements to a SQLite database. The embedding gives each
  statement of the source its effect on a store of tables.

  Scope of the store model:
  \<^item> a value is NULL, an INTEGER or a TEXT; REAL (floating point) and BLOB values are not
    modelled;
  \<^item> text is a list of 8-bit characters; table and column names are ASCII;
  \<^item> names are looked up exactly as written (SQLite folds ASCII case in identifiers);
  \<^item> values are compared by storage class (INTEGER before TEXT, integers by value, text
    bytewise); the conversions SQLite applies for a column's declared type are not modelled.
\<close>

datatype sqlval = SNull | SInt int | SText string

text \<open>The three truth values of an SQL condition.\<close>

datatype tv = TTrue | TFalse | TUnknown

fun text_lt :: "string \<Rightarrow> string \<Rightarrow> bool" where
  "text_lt [] [] = False"
| "text_lt [] (y # ys) = True"
| "text_lt (x # xs) [] = False"
| "text_lt (x # xs) (y # ys) =
     (if (of_char x :: nat) < of_char y then True
      else if (of_char y :: nat) < of_char x then False
      else text_lt xs ys)"

text \<open>The order of two values that are not NULL.\<close>

fun val_lt :: "sqlval \<Rightarrow> sqlval \<Rightarrow> bool" where
  "val_lt (SInt a) (SInt b) = (a < b)"
| "val_lt (SInt a) (SText t) = True"
| "val_lt (SText s) (SInt b) = False"
| "val_lt (SText s) (SText t) = text_lt s t"
| "val_lt SNull _ = False"
| "val_lt _ SNull = False"

definition sql_gt :: "sqlval \<Rightarrow> sqlval \<Rightarrow> tv" where
  "sql_gt a b =
     (if a = SNull \<or> b = SNull then TUnknown else if val_lt b a then TTrue else TFalse)"

definition sql_eq :: "sqlval \<Rightarrow> sqlval \<Rightarrow> tv" where
  "sql_eq a b =
     (if a = SNull \<or> b = SNull then TUnknown else if a = b then TTrue else TFalse)"

text \<open>Decimal text of an integer, as the operator \<^verbatim>\<open>||\<close> renders an INTEGER operand.\<close>

definition digit_char :: "nat \<Rightarrow> char" where
  "digit_char n = char_of (48 + n)"

fun show_nat :: "nat \<Rightarrow> string" where
  "show_nat n = (if n < 10 then [digit_char n] else show_nat (n div 10) @ [digit_char (n mod 10)])"

declare show_nat.simps [simp del]

definition show_int :: "int \<Rightarrow> string" where
  "show_int i = (if i < 0 then CHR ''-'' # show_nat (nat (- i)) else show_nat (nat i))"

fun sql_concat :: "sqlval \<Rightarrow> sqlval \<Rightarrow> sqlval" where
  "sql_concat SNull _ = SNull"
| "sql_concat _ SNull = SNull"
| "sql_concat (SInt a) (SInt b) = SText (show_int a @ show_int b)"
| "sql_concat (SInt a) (SText t) = SText (show_int a @ t)"
| "sql_concat (SText s) (SInt b) = SText (s @ show_int b)"
| "sql_concat (SText s) (SText t) = SText (s @ t)"

subsection \<open>Expressions of a SELECT list\<close>

text \<open>
  The SELECT lists of the source use column references, literals, the operator \<^verbatim>\<open>||\<close> and
  \<^verbatim>\<open>CASE WHEN c THEN a ELSE b END\<close> over the comparisons \<^verbatim>\<open>>\<close> and \<^verbatim>\<open>=\<close>. A condition
  that is unknown (a NULL operand) takes the ELSE branch.
\<close>

datatype expr = Col string | Lit sqlval | Concat expr expr | CaseWhen cond expr expr
and cond = Gt expr expr | Eq expr expr

type_synonym rowenv = "(string \<times> sqlval) list"

fun eval_expr :: "rowenv \<Rightarrow> expr \<Rightarrow> sqlval"
and eval_cond :: "rowenv \<Rightarrow> cond \<Rightarrow> tv" where
  "eval_expr env (Col c) = (case map_of env c of Some v \<Rightarrow> v | None \<Rightarrow> SNull)"
| "eval_expr env (Lit v) = v"
| "eval_expr env (Concat a b) = sql_concat (eval_expr env a) (eval_expr env b)"
| "eval_expr env (CaseWhen c a b) =
     (if eval_cond env c = TTrue then eval_expr env a else eval_expr env b)"
| "eval_cond env (Gt a b) = sql_gt (eval_expr env a) (eval_expr env b)"
| "eval_cond env (Eq a b) = sql_eq (eval_expr env a) (eval_expr env b)"

fun expr_cols :: "expr \<Rightarrow> string list"
and cond_cols :: "cond \<Rightarrow> string list" where
  "expr_cols (Col c) = [c]"
| "expr_cols (Lit v) = []"
| "expr_cols (Concat a b) = expr_cols a @ expr_cols b"
| "expr_cols (CaseWhen c a b) = cond_cols c @ expr_cols a @ expr_cols b"
| "cond_cols (Gt a b) = expr_cols a @ expr_cols b"
| "cond_cols (Eq a b) = expr_cols a @ expr_cols b"

subsection \<open>Tables and statements\<close>

record table =
  cols :: "string list"
  rows :: "sqlval list list"

type_synonym store = "string \<rightharpoonup> table"

text \<open>
  A row source is what a FROM clause yields: the names its columns answer to and its rows.
  \<open>from_table\<close> is \<^verbatim>\<open>FROM t\<close>, \<open>from_alias\<close> is \<^verbatim>\<open>FROM t a\<close> (columns are then written
  \<^verbatim>\<open>a.c\<close>), \<open>join_on\<close> is the inner join \<^verbatim>\<open>x JOIN y ON l = r\<close>. \<open>None\<close> is the SQLite error
  (no such table, no such column).
\<close>

definition from_table :: "string \<Rightarrow> store \<Rightarrow> table option" where
  "from_table t st = st t"

definition from_alias :: "string \<Rightarrow> string \<Rightarrow> store \<Rightarrow> table option" where
  "from_alias t a st =
     (case st t of None \<Rightarrow> None
      | Some tb \<Rightarrow> Some \<lparr>cols = map (\<lambda>c. a @ ''.'' @ c) (cols tb), rows = rows tb\<rparr>)"

definition join_on :: "table option \<Rightarrow> table option \<Rightarrow> string \<Rightarrow> string \<Rightarrow> table option" where
  "join_on x y l r =
     (case x of None \<Rightarrow> None
      | Some tx \<Rightarrow>
        (case y of None \<Rightarrow> None
         | Some ty \<Rightarrow>
           (if l \<in> set (cols tx @ cols ty) \<and> r \<in> set (cols tx @ cols ty) then
              Some \<lparr>cols = cols tx @ cols ty,
                    rows = concat (map (\<lambda>rx. map (\<lambda>ry. rx @ ry)
                             (filter (\<lambda>ry. sql_eq
                                 (eval_expr (zip (cols tx @ cols ty) (rx @ ry)) (Col l))
                                 (eval_expr (zip (cols tx @ cols ty) (rx @ ry)) (Col r)) = TTrue)
                               (rows ty))) (rows tx))\<rparr>
            else None)))"

text \<open>
  \<^verbatim>\<open>SELECT e1 AS n1, ..., ek AS nk FROM src\<close>: fails when a referenced column is not one of
  the source's, else maps every row.
\<close>

definition select_as :: "(expr \<times> string) list \<Rightarrow> table option \<Rightarrow> table option" where
  "select_as items src =
     (case src of None \<Rightarrow> None
      | Some tb \<Rightarrow>
        (if list_all (\<lambda>c. c \<in> set (cols tb)) (concat (map (\<lambda>it. expr_cols (fst it)) items)) then
           Some \<lparr>cols = map snd items,
                 rows = map (\<lambda>r. map (\<lambda>it. eval_expr (zip (cols tb) r) (fst it)) items) (rows tb)\<rparr>
         else None))"

text \<open>\<^verbatim>\<open>SELECT DISTINCT\<close> keeps one copy of each row (NULLs count as equal).\<close>

definition distinct_rows :: "table option \<Rightarrow> table option" where
  "distinct_rows q =
     (case q of None \<Rightarrow> None | Some tb \<Rightarrow> Some (tb\<lparr>rows := remdups (rows tb)\<rparr>))"

text \<open>
  \<^verbatim>\<open>DROP TABLE IF EXISTS n\<close> and \<^verbatim>\<open>CREATE TABLE n AS <query>\<close>. The result is the new store,
  or \<open>None\<close> for a SQLite error (the query fails, or the table exists already).
\<close>

definition drop_table :: "string \<Rightarrow> store \<Rightarrow> store option" where
  "drop_table n st = Some (st(n := None))"

definition create_table_as :: "string \<Rightarrow> (store \<Rightarrow> table option) \<Rightarrow> store \<Rightarrow> store option" where
  "create_table_as n q st =
     (case q st of None \<Rightarrow> None
      | Some tb \<Rightarrow> (if st n \<noteq> None then None else Some (st(n \<mapsto> tb))))"

text \<open>\<^verbatim>\<open>SELECT COUNT(*) FROM n\<close>.\<close>

definition count_rows :: "string \<Rightarrow> store \<Rightarrow> nat option" where
  "count_rows n st = (case st n of None \<Rightarrow> None | Some tb \<Rightarrow> Some (length (rows tb)))"


text \<open>
  \<^verbatim>\<open>SELECT MIN(c) FROM t\<close> and \<^verbatim>\<open>SELECT MAX(c) FROM t\<close>: the least and the greatest value
  that is not NULL, NULL when there is none. The statement fails when the table or the
  column does not exist.
\<close>

fun agg_min :: "sqlval list \<Rightarrow> sqlval \<Rightarrow> sqlval" where
  "agg_min [] best = best"
| "agg_min (v # vs) best =
     agg_min vs (if v = SNull then best else if best = SNull \<or> val_lt v best then v else best)"

fun agg_max :: "sqlval list \<Rightarrow> sqlval \<Rightarrow> sqlval" where
  "agg_max [] best = best"
| "agg_max (v # vs) best =
     agg_max vs (if v = SNull then best else if best = SNull \<or> val_lt best v then v else best)"

definition column_values :: "string \<Rightarrow> table \<Rightarrow> sqlval list" where
  "column_values c tb = map (\<lambda>r. eval_expr (zip (cols tb) r) (Col c)) (rows tb)"

definition select_min :: "string \<Rightarrow> string \<Rightarrow> store \<Rightarrow> sqlval option" where
  "select_min c t st =
     (case st t of None \<Rightarrow> None
      | Some tb \<Rightarrow> if c \<in> set (cols tb) then Some (agg_min (column_values c tb) SNull) else None)"

definition select_max :: "string \<Rightarrow> string \<Rightarrow> store \<Rightarrow> sqlval option" where
  "select_max c t st =
     (case st t of None \<Rightarrow> None
      | Some tb \<Rightarrow> if c \<in> set (cols tb) then Some (agg_max (column_values c tb) SNull) else None)"

text \<open>\<^verbatim>\<open>SELECT c FROM t\<close>, one arm of a compound SELECT.\<close>

definition select_column :: "string \<Rightarrow> string \<Rightarrow> store \<Rightarrow> sqlval list option" where
  "select_column c t st =
     (case st t of None \<Rightarrow> None
      | Some tb \<Rightarrow> if c \<in> set (cols tb) then Some (column_values c tb) else None)"

text \<open>
  \<^verbatim>\<open>a UNION b UNION ...\<close> of one-column arms: fails when an arm fails, else the values of
  all arms with duplicates removed. SQL fixes no order for the result; the model keeps the
  last occurrence of each value, and no statement below depends on the order.
\<close>

fun union_arms :: "sqlval list option list \<Rightarrow> sqlval list option" where
  "union_arms [] = Some []"
| "union_arms (a # as) =
     (case a of None \<Rightarrow> None
      | Some vs \<Rightarrow> (case union_arms as of None \<Rightarrow> None | Some ws \<Rightarrow> Some (remdups (vs @ ws))))"

text \<open>
  \<^verbatim>\<open>SELECT name FROM sqlite_master WHERE type='table' AND name=?\<close>: the rows of the answer.
\<close>

definition master_lookup :: "string \<Rightarrow> store \<Rightarrow> string list option" where
  "master_lookup n st = Some (if st n = None then [] else [n])"

text \<open>
  \<^verbatim>\<open>CREATE TABLE n (c1 ..., ck ...)\<close> with the first column as primary key, and
  \<^verbatim>\<open>INSERT INTO n VALUES (?, ..., ?)\<close>, which fails when the table is missing, the number of
  values is not the number of columns, or the key is in the table already.
\<close>

definition create_table :: "string \<Rightarrow> string list \<Rightarrow> store \<Rightarrow> store option" where
  "create_table n cs st = (if st n \<noteq> None then None else Some (st(n \<mapsto> \<lparr>cols = cs, rows = []\<rparr>)))"

definition first_col :: "sqlval list \<Rightarrow> sqlval" where
  "first_col r = (case r of [] \<Rightarrow> SNull | v # _ \<Rightarrow> v)"

definition insert_into :: "string \<Rightarrow> sqlval list \<Rightarrow> store \<Rightarrow> store option" where
  "insert_into n r st =
     (case st n of None \<Rightarrow> None
      | Some tb \<Rightarrow>
        (if length r \<noteq> length (cols tb) then None
         else if first_col r \<in> set (map first_col (rows tb)) then None
         else Some (st(n \<mapsto> tb\<lparr>rows := rows tb @ [r]\<rparr>))))"

text \<open>
  \<^verbatim>\<open>CREATE INDEX IF NOT EXISTS i ON t(c)\<close>. An index holds no data of its own, so the store
  is the same after the statement; the statement fails when the table or the column is
  missing.
\<close>

definition create_index :: "string \<Rightarrow> string \<Rightarrow> string \<Rightarrow> store \<Rightarrow> store option" where
  "create_index i t c st =
     (case st t of None \<Rightarrow> None | Some tb \<Rightarrow> if c \<in> set (cols tb) then Some st else None)"

section \<open>Calendar dates of the Python library\<close>

text \<open>
  \<^verbatim>\<open>datetime.date\<close> values are proleptic Gregorian dates of the years 1 to 9999. The
  functions follow the library: \<open>ymd2ord\<close>, \<open>weekday\<close> and \<open>iso_week\<close> are its
  \<^verbatim>\<open>_ymd2ord\<close>, \<^verbatim>\<open>weekday()\<close> and \<^verbatim>\<open>isocalendar()[1]\<close>.
\<close>

datatype py_error = TypeError | ValueError | OverflowError | OSError | OperationalError

record date =
  year :: int
  month :: int
  day :: int

definition is_leap :: "int \<Rightarrow> bool" where
  "is_leap y = (y mod 4 = 0 \<and> (y mod 100 \<noteq> 0 \<or> y mod 400 = 0))"

definition days_in_month :: "int \<Rightarrow> int \<Rightarrow> int" where
  "days_in_month y m =
     (if m = 2 then (if is_leap y then 29 else 28)
      else if m = 4 \<or> m = 6 \<or> m = 9 \<or> m = 11 then 30 else 31)"

definition days_before_year :: "int \<Rightarrow> int" where
  "days_before_year y = (y - 1) * 365 + (y - 1) div 4 - (y - 1) div 100 + (y - 1) div 400"

definition days_before_month :: "int \<Rightarrow> int \<Rightarrow> int" where
  "days_before_month y m =
     (if m = 1 then 0 else if m = 2 then 31 else if m = 3 then 59 else if m = 4 then 90
      else if m = 5 then 120 else if m = 6 then 151 else if m = 7 then 181
      else if m = 8 then 212 else if m = 9 then 243 else if m = 10 then 273
      else if m = 11 then 304 else 334)
     + (if m > 2 \<and> is_leap y then 1 else 0)"

definition ymd2ord :: "int \<Rightarrow> int \<Rightarrow> int \<Rightarrow> int" where
  "ymd2ord y m d = days_before_year y + days_before_month y m + d"

definition toordinal :: "date \<Rightarrow> int" where
  "toordinal d = ymd2ord (year d) (month d) (day d)"

definition valid_date :: "date \<Rightarrow> bool" where
  "valid_date d =
     (1 \<le> year d \<and> year d \<le> 9999 \<and> 1 \<le> month d \<and> month d \<le> 12 \<and>
      1 \<le> day d \<and> day d \<le> days_in_month (year d) (month d))"

definition weekday :: "date \<Rightarrow> int" where
  "weekday d = (toordinal d + 6) mod 7"

definition isoweek1monday :: "int \<Rightarrow> int" where
  "isoweek1monday y =
     (let firstday = ymd2ord y 1 1;
          firstweekday = (firstday + 6) mod 7;
          week1monday = firstday - firstweekday
      in if firstweekday > 3 then week1monday + 7 else week1monday)"

definition iso_week :: "date \<Rightarrow> int" where
  "iso_week d =
     (let today = toordinal d;
          week = (today - isoweek1monday (year d)) div 7
      in if week < 0 then (today - isoweek1monday (year d - 1)) div 7 + 1
         else if week \<ge> 52 \<and> today \<ge> isoweek1monday (year d + 1) then 1
         else week + 1)"

text \<open>The comparison \<^verbatim>\<open>current_date <= end_date\<close> of two dates.\<close>

definition date_le :: "date \<Rightarrow> date \<Rightarrow> bool" where
  "date_le a b =
     (year a < year b \<or>
      (year a = year b \<and> (month a < month b \<or> (month a = month b \<and> day a \<le> day b))))"

text \<open>
  \<^verbatim>\<open>current_date + timedelta(days=1)\<close>: the library raises OverflowError when the ordinal of
  the result exceeds that of 9999-12-31 (3652059), and otherwise returns the date of that
  ordinal, which is the calendar successor \<open>next_day\<close>.
\<close>

definition next_day :: "date \<Rightarrow> date" where
  "next_day d =
     (if day d < days_in_month (year d) (month d) then d\<lparr>day := day d + 1\<rparr>
      else if month d < 12 then d\<lparr>month := month d + 1, day := 1\<rparr>
      else \<lparr>year = year d + 1, month = 1, day = 1\<rparr>)"

definition add_one_day :: "date \<Rightarrow> py_error + date" where
  "add_one_day d = (if toordinal d + 1 > 3652059 then Inl OverflowError else Inr (next_day d))"

subsection \<open>Parsing and printing with the format \<^verbatim>\<open>%Y-%m-%d\<close>\<close>

text \<open>
  \<^verbatim>\<open>strptime\<close> matches the regular expression the library builds for the format:
  four digits, \<^verbatim>\<open>-\<close>, a month \<^verbatim>\<open>1[0-2]|0[1-9]|[1-9]\<close>, \<^verbatim>\<open>-\<close>, a day
  \<^verbatim>\<open>3[0-1]|[1-2]\d|0[1-9]|[1-9]| [1-9]\<close>, and nothing after it. A text that does not match,
  or that names no date of the calendar, raises ValueError.
\<close>

definition is_digit :: "char \<Rightarrow> bool" where
  "is_digit c = (48 \<le> (of_char c :: nat) \<and> (of_char c :: nat) \<le> 57)"

definition digit_val :: "char \<Rightarrow> int" where
  "digit_val c = int (of_char c) - 48"

definition parse_month :: "string \<Rightarrow> int option" where
  "parse_month ms =
     (case ms of
        [a] \<Rightarrow> if is_digit a \<and> a \<noteq> CHR ''0'' then Some (digit_val a) else None
      | [a, b] \<Rightarrow>
          if a = CHR ''1'' \<and> (b = CHR ''0'' \<or> b = CHR ''1'' \<or> b = CHR ''2'') then Some (10 + digit_val b)
          else if a = CHR ''0'' \<and> is_digit b \<and> b \<noteq> CHR ''0'' then Some (digit_val b)
          else None
      | _ \<Rightarrow> None)"

definition parse_day :: "string \<Rightarrow> int option" where
  "parse_day ds =
     (case ds of
        [a] \<Rightarrow> if is_digit a \<and> a \<noteq> CHR ''0'' then Some (digit_val a) else None
      | [a, b] \<Rightarrow>
          if a = CHR ''3'' \<and> (b = CHR ''0'' \<or> b = CHR ''1'') then Some (30 + digit_val b)
          else if (a = CHR ''1'' \<or> a = CHR ''2'') \<and> is_digit b then Some (10 * digit_val a + digit_val b)
          else if a = CHR ''0'' \<and> is_digit b \<and> b \<noteq> CHR ''0'' then Some (digit_val b)
          else if a = CHR '' '' \<and> is_digit b \<and> b \<noteq> CHR ''0'' then Some (digit_val b)
          else None
      | _ \<Rightarrow> None)"

definition strptime :: "string \<Rightarrow> py_error + date" where
  "strptime s =
     (case s of
        a # b # c # d # e # rest \<Rightarrow>
          (if is_digit a \<and> is_digit b \<and> is_digit c \<and> is_digit d \<and> e = CHR ''-'' then
             (case dropWhile (\<lambda>x. x \<noteq> CHR ''-'') rest of
                [] \<Rightarrow> Inl ValueError
              | _ # ds \<Rightarrow>
                (case parse_month (takeWhile (\<lambda>x. x \<noteq> CHR ''-'') rest) of
                   None \<Rightarrow> Inl ValueError
                 | Some m \<Rightarrow>
                   (case parse_day ds of
                      None \<Rightarrow> Inl ValueError
                    | Some dd \<Rightarrow>
                      (let dt = \<lparr>year = 1000 * digit_val a + 100 * digit_val b
                                        + 10 * digit_val c + digit_val d,
                                 month = m, day = dd\<rparr>
                       in if valid_date dt then Inr dt else Inl ValueError))))
           else Inl ValueError)
      | _ \<Rightarrow> Inl ValueError)"

text \<open>
  \<^verbatim>\<open>strftime("%Y-%m-%d")\<close> of a date: the year in four digits, month and day in two.
\<close>

definition fmt2 :: "int \<Rightarrow> string" where
  "fmt2 n = [digit_char (nat (n div 10 mod 10)), digit_char (nat (n mod 10))]"

definition fmt4 :: "int \<Rightarrow> string" where
  "fmt4 n = [digit_char (nat (n div 1000 mod 10)), digit_char (nat (n div 100 mod 10)),
             digit_char (nat (n div 10 mod 10)), digit_char (nat (n mod 10))]"

definition strftime :: "date \<Rightarrow> string" where
  "strftime d = fmt4 (year d) @ ''-'' @ fmt2 (month d) @ ''-'' @ fmt2 (day d)"


section \<open>The warehouse build (\<^verbatim>\<open>1.4_InitializeDW.py\<close>)\<close>

text \<open>
  The state of a \<^verbatim>\<open>BaseballDataWarehouse\<close> object at work: the database behind its
  connection and the lines it has printed. Every statement goes through
  \<^verbatim>\<open>execute_query\<close>, which commits after the statement and, on a SQLite error, prints the
  error and returns \<^verbatim>\<open>None\<close>; so a failed statement changes nothing and later statements
  still run.
\<close>

datatype event =
    StartingBuild
  | Connected
  | ConnectionClosed
  | ErrorExecutingQuery
  | MissingSourceTables "string list"
  | AbortingBuild
  | ErrorDuringBuild py_error
  | BuildCompleted
  | CreatingDimensionTables
  | Creating string
  | WarnNoDateRange
  | WarnUnsupportedDateFormat sqlval
  | CreatedAllDimensionTables
  | CreatingFactTables
  | CreatedWithRecords string nat
  | CreatedAllFactTables
  | CreatingIndexes
  | CreatedIndexes
  | VerifyingTableCounts
  | TableRecords string nat
  | CouldNotRetrieveCount string
  | TableDoesNotExist string
  | NoPlayerStatsFound

record world =
  db :: store
  out :: "event list"

definition say :: "event \<Rightarrow> world \<Rightarrow> world" where
  "say e w = w\<lparr>out := out w @ [e]\<rparr>"

text \<open>\<^verbatim>\<open>execute_query(..., fetch=False)\<close> of a statement that changes the store.\<close>

definition exec_stmt :: "(store \<Rightarrow> store option) \<Rightarrow> world \<Rightarrow> world" where
  "exec_stmt f w =
     (case f (db w) of None \<Rightarrow> say ErrorExecutingQuery w | Some st \<Rightarrow> w\<lparr>db := st\<rparr>)"

text \<open>\<^verbatim>\<open>execute_query(...)\<close> of a query: its answer, or \<open>None\<close> after an error.\<close>

definition exec_fetch :: "(store \<Rightarrow> 'a option) \<Rightarrow> world \<Rightarrow> 'a option \<times> world" where
  "exec_fetch q w =
     (case q (db w) of None \<Rightarrow> (None, say ErrorExecutingQuery w) | Some a \<Rightarrow> (Some a, w))"

text \<open>A sequence of statements, run in order.\<close>

definition run :: "(world \<Rightarrow> world) list \<Rightarrow> world \<Rightarrow> world" where
  "run steps w = fold (\<lambda>f. f) steps w"

subsection \<open>\<^verbatim>\<open>_verify_source_tables\<close>\<close>

definition required_tables :: "string list" where
  "required_tables =
     [''gameinfo'', ''batting'', ''pitching'', ''allplayers'', ''teamstats'', ''fielding'']"

fun verify_loop :: "string list \<Rightarrow> string list \<Rightarrow> world \<Rightarrow> string list \<times> world" where
  "verify_loop [] missing_tables w = (missing_tables, w)"
| "verify_loop (t # ts) missing_tables w =
     (case exec_fetch (master_lookup t) w of
        (result, w') \<Rightarrow>
          (if result = None \<or> result = Some [] then verify_loop ts (missing_tables @ [t]) w'
           else verify_loop ts missing_tables w'))"

definition verify_source_tables :: "world \<Rightarrow> bool \<times> world" where
  "verify_source_tables w =
     (case verify_loop required_tables [] w of
        (missing_tables, w') \<Rightarrow>
          (if missing_tables \<noteq> [] then (False, say (MissingSourceTables missing_tables) w')
           else (True, w')))"

subsection \<open>\<^verbatim>\<open>_create_dimension_tables\<close>\<close>

definition dim_player_query :: "store \<Rightarrow> table option" where
  "dim_player_query st =
     distinct_rows (select_as
       [(Col ''id'', ''player_id''),
        (Concat (Concat (Col ''first'') (Lit (SText '' ''))) (Col ''last''), ''player_name''),
        (Col ''first'', ''first_name''),
        (Col ''last'', ''last_name''),
        (Col ''bat'', ''batting_hand''),
        (Col ''throw'', ''throwing_hand'')]
       (from_table ''allplayers'' st))"

definition dim_team_query :: "store \<Rightarrow> table option" where
  "dim_team_query st =
     (case union_arms
        [select_column ''team'' ''allplayers'' st,
         select_column ''visteam'' ''gameinfo'' st,
         select_column ''hometeam'' ''gameinfo'' st,
         select_column ''team'' ''teamstats'' st,
         select_column ''team'' ''batting'' st,
         select_column ''team'' ''pitching'' st,
         select_column ''team'' ''fielding'' st] of
        None \<Rightarrow> None
      | Some vs \<Rightarrow>
          distinct_rows (select_as [(Col ''team'', ''team_id'')]
            (Some \<lparr>cols = [''team''], rows = map (\<lambda>v. [v]) vs\<rparr>)))"

definition dim_game_query :: "store \<Rightarrow> table option" where
  "dim_game_query st =
     select_as
       [(Col ''gid'', ''game_id''),
        (Col ''date'', ''game_date''),
        (Col ''season'', ''season''),
        (Col ''site'', ''ballpark''),
        (Col ''gametype'', ''gametype''),
        (Col ''daynight'', ''daynight''),
        (Col ''usedh'', ''usedh''),
        (Col ''innings'', ''scheduled_innings''),
        (Col ''tiebreaker'', ''tiebreaker''),
        (Col ''htbf'', ''home_team_bat_first''),
        (Col ''timeofgame'', ''game_duration_minutes''),
        (Col ''attendance'', ''attendance''),
        (Col ''fieldcond'', ''field_condition''),
        (Col ''precip'', ''precipitation''),
        (Col ''sky'', ''sky_conditions''),
        (Col ''temp'', ''temperature''),
        (Col ''winddir'', ''wind_direction''),
        (Col ''windspeed'', ''wind_speed''),
        (Col ''forfeit'', ''forfeit''),
        (Col ''suspend'', ''suspended''),
        (Col ''vruns'', ''visitor_runs''),
        (Col ''hruns'', ''home_runs''),
        (Col ''wteam'', ''winning_team''),
        (Col ''lteam'', ''losing_team''),
        (Col ''visteam'', ''visiting_team_id''),
        (Col ''hometeam'', ''home_team_id'')]
       (from_table ''gameinfo'' st)"

text \<open>
  The first part of \<^verbatim>\<open>_create_dimension_tables\<close>, up to DimGame: it cannot raise. The
  second part, \<open>create_dim_date\<close> below, builds DimDate.
\<close>

definition create_dim_player_team_game :: "world \<Rightarrow> world" where
  "create_dim_player_team_game w =
     run [say CreatingDimensionTables,
          exec_stmt (drop_table ''DimPlayer''),
          exec_stmt (drop_table ''DimTeam''),
          exec_stmt (drop_table ''DimGame''),
          exec_stmt (drop_table ''DimDate''),
          say (Creating ''DimPlayer''),
          exec_stmt (create_table_as ''DimPlayer'' dim_player_query),
          say (Creating ''DimTeam''),
          exec_stmt (create_table_as ''DimTeam'' dim_team_query),
          say (Creating ''DimGame''),
          exec_stmt (create_table_as ''DimGame'' dim_game_query)] w"

text \<open>
  The try block that prepares the date bounds. The values fetched are Python's \<^verbatim>\<open>None\<close>, an
  \<^verbatim>\<open>int\<close> or a \<^verbatim>\<open>str\<close>, written \<open>SNull\<close>, \<open>SInt\<close> and \<open>SText\<close>. An integer bound is
  taken for an epoch timestamp: \<open>fromtimestamp\<close> stands for
  \<^verbatim>\<open>datetime.fromtimestamp(n)\<close>, the local date of that instant or the exception the platform
  raises, and is a parameter of the model. \<^verbatim>\<open>strptime\<close> of a value that is no \<^verbatim>\<open>str\<close>,
  and \<^verbatim>\<open>fromtimestamp\<close> of a value that is no number, raise TypeError. The result is the
  exception raised, with the value of \<^verbatim>\<open>min_date\<close> at that moment, or the pair
  \<^verbatim>\<open>(min_date, max_date)\<close> after the block.
\<close>

definition py_strptime :: "sqlval \<Rightarrow> py_error + date" where
  "py_strptime v = (case v of SText s \<Rightarrow> strptime s | _ \<Rightarrow> Inl TypeError)"

definition py_fromtimestamp :: "(int \<Rightarrow> py_error + date) \<Rightarrow> sqlval \<Rightarrow> py_error + date" where
  "py_fromtimestamp fromtimestamp v = (case v of SInt n \<Rightarrow> fromtimestamp n | _ \<Rightarrow> Inl TypeError)"

definition convert_bounds ::
  "(int \<Rightarrow> py_error + date) \<Rightarrow> sqlval \<Rightarrow> sqlval \<Rightarrow> (py_error \<times> sqlval) + (sqlval \<times> sqlval)" where
  "convert_bounds fromtimestamp min_date max_date =
     (case min_date of
        SInt n \<Rightarrow>
          (case fromtimestamp n of
             Inl e \<Rightarrow> Inl (e, min_date)
           | Inr d1 \<Rightarrow>
             (case py_fromtimestamp fromtimestamp max_date of
                Inl e \<Rightarrow> Inl (e, SText (strftime d1))
              | Inr d2 \<Rightarrow> Inr (SText (strftime d1), SText (strftime d2))))
      | _ \<Rightarrow>
          (case py_strptime min_date of
             Inl e \<Rightarrow> Inl (e, min_date)
           | Inr _ \<Rightarrow> Inr (min_date, max_date)))"

definition dim_date_columns :: "string list" where
  "dim_date_columns =
     [''date_id'', ''date'', ''year'', ''month'', ''day'', ''day_of_week'', ''week_of_year'',
      ''season_period'']"

text \<open>The values of one \<^verbatim>\<open>INSERT INTO DimDate\<close>, computed from \<^verbatim>\<open>current_date\<close>.\<close>

definition dim_date_row :: "date \<Rightarrow> sqlval list" where
  "dim_date_row current_date =
     [SText (strftime current_date), SText (strftime current_date),
      SInt (year current_date), SInt (month current_date), SInt (day current_date),
      SInt (weekday current_date), SInt (iso_week current_date),
      SText (if 3 \<le> month current_date \<and> month current_date \<le> 10 then ''Regular''
             else ''Offseason'')]"

text \<open>
  The loop \<^verbatim>\<open>while current_date <= end_date\<close>. It ends with the exception of the
  date addition, if one is raised, after the row of that day has been inserted.
\<close>

function date_loop :: "date \<Rightarrow> date \<Rightarrow> world \<Rightarrow> py_error option \<times> world" where
  "date_loop current_date end_date w =
     (if date_le current_date end_date then
        (case add_one_day current_date of
           Inl e \<Rightarrow> (Some e, exec_stmt (insert_into ''DimDate'' (dim_date_row current_date)) w)
         | Inr nxt \<Rightarrow>
             date_loop nxt end_date
               (exec_stmt (insert_into ''DimDate'' (dim_date_row current_date)) w))
      else (None, w))"
  by pat_completeness auto
termination
proof (relation "measures [\<lambda>(c, e, w). nat (year e + 1 - year c),
                           \<lambda>(c, e, w). nat (12 - month c),
                           \<lambda>(c, e, w). nat (31 - day c)]", goal_cases)
  case 1
  show ?case by simp
next
  case (2 c e w nxt)
  have dim: "days_in_month (year c) (month c) \<le> 31"
    by (simp add: days_in_month_def)
  from 2 have nxt: "nxt = next_day c"
    by (simp add: add_one_day_def split: if_splits)
  from 2(1) have le: "year c \<le> year e"
    by (auto simp: date_le_def)
  show ?case
    using dim le unfolding nxt next_day_def
    by (auto simp: Let_def)
qed

declare date_loop.simps [simp del]

text \<open>
  The part of \<^verbatim>\<open>_create_dimension_tables\<close> that builds DimDate, from the line
  \<^verbatim>\<open>print("Creating DimDate...")\<close> on. The first component of the result is the exception
  that leaves the method, if any.
\<close>

definition create_dim_date :: "(int \<Rightarrow> py_error + date) \<Rightarrow> world \<Rightarrow> py_error option \<times> world" where
  "create_dim_date fromtimestamp w0 =
     (case exec_fetch (select_min ''date'' ''gameinfo'') (say (Creating ''DimDate'') w0) of
        (min_date_result, w1) \<Rightarrow>
     (case exec_fetch (select_max ''date'' ''gameinfo'') w1 of
        (max_date_result, w2) \<Rightarrow>
     (case (min_date_result, max_date_result) of
        (Some min_date, Some max_date) \<Rightarrow>
          (case convert_bounds fromtimestamp min_date max_date of
             Inl (e, shown) \<Rightarrow>
               (if e = ValueError then (None, say (WarnUnsupportedDateFormat shown) w2)
                else (Some e, w2))
           | Inr (min_date', max_date') \<Rightarrow>
               (let w3 = exec_stmt (create_table ''DimDate'' dim_date_columns) w2 in
                case py_strptime min_date' of
                  Inl e \<Rightarrow> (Some e, w3)
                | Inr current_date \<Rightarrow>
                    (case py_strptime max_date' of
                       Inl e \<Rightarrow> (Some e, w3)
                     | Inr end_date \<Rightarrow>
                         (case date_loop current_date end_date w3 of
                            (Some e, w4) \<Rightarrow> (Some e, w4)
                          | (None, w4) \<Rightarrow> (None, say CreatedAllDimensionTables w4)))))
      | _ \<Rightarrow> (None, say WarnNoDateRange w2))))"

definition create_dimension_tables ::
  "(int \<Rightarrow> py_error + date) \<Rightarrow> world \<Rightarrow> py_error option \<times> world" where
  "create_dimension_tables fromtimestamp w =
     create_dim_date fromtimestamp (create_dim_player_team_game w)"

subsection \<open>\<^verbatim>\<open>_create_fact_tables\<close>\<close>

definition fact_batting_query :: "store \<Rightarrow> table option" where
  "fact_batting_query st =
     select_as
       [(Col ''b.gid'', ''game_id''),
        (Col ''b.id'', ''player_id''),
        (Col ''b.team'', ''team_id''),
        (Col ''g.date'', ''game_date''),
        (Col ''b.b_pa'', ''plate_appearances''),
        (Col ''b.b_ab'', ''at_bats''),
        (Col ''b.b_r'', ''runs''),
        (Col ''b.b_h'', ''hits''),
        (Col ''b.b_d'', ''doubles''),
        (Col ''b.b_t'', ''triples''),
        (Col ''b.b_hr'', ''home_runs''),
        (Col ''b.b_rbi'', ''rbi''),
        (Col ''b.b_sh'', ''sacrifice_hits''),
        (Col ''b.b_sf'', ''sacrifice_flies''),
        (Col ''b.b_hbp'', ''hit_by_pitch''),
        (Col ''b.b_w'', ''walks''),
        (Col ''b.b_iw'', ''intentional_walks''),
        (Col ''b.b_k'', ''strikeouts''),
        (Col ''b.b_sb'', ''stolen_bases''),
        (Col ''b.b_cs'', ''caught_stealing''),
        (Col ''b.b_gdp'', ''grounded_into_double_plays''),
        (Col ''b.b_xi'', ''catcher_interference''),
        (Col ''b.b_roe'', ''reached_on_error''),
        (CaseWhen (Eq (Col ''b.dh'') (Lit (SInt 1))) (Lit (SInt 1)) (Lit (SInt 0)), ''is_dh''),
        (CaseWhen (Eq (Col ''b.ph'') (Lit (SInt 1))) (Lit (SInt 1)) (Lit (SInt 0)),
           ''is_pinch_hitter''),
        (CaseWhen (Eq (Col ''b.pr'') (Lit (SInt 1))) (Lit (SInt 1)) (Lit (SInt 0)),
           ''is_pinch_runner'')]
       (join_on (from_alias ''batting'' ''b'' st) (from_alias ''gameinfo'' ''g'' st)
          ''b.gid'' ''g.gid'')"

definition fact_pitching_query :: "store \<Rightarrow> table option" where
  "fact_pitching_query st =
     select_as
       [(Col ''p.gid'', ''game_id''),
        (Col ''p.id'', ''player_id''),
        (Col ''p.team'', ''team_id''),
        (Col ''g.date'', ''game_date''),
        (Col ''p.p_ipouts'', ''outs_recorded''),
        (Col ''p.p_bfp'', ''batters_faced''),
        (Col ''p.p_h'', ''hits_allowed''),
        (Col ''p.p_r'', ''runs_allowed''),
        (Col ''p.p_er'', ''earned_runs''),
        (Col ''p.p_w'', ''walks_allowed''),
        (Col ''p.p_iw'', ''intentional_walks_allowed''),
        (Col ''p.p_k'', ''strikeouts''),
        (Col ''p.p_hbp'', ''hit_batters''),
        (Col ''p.p_wp'', ''wild_pitches''),
        (Col ''p.p_bk'', ''balks''),
        (Col ''p.p_sh'', ''sacrifice_hits_allowed''),
        (Col ''p.p_sf'', ''sacrifice_flies_allowed''),
        (Col ''p.p_hr'', ''home_runs_allowed''),
        (CaseWhen (Eq (Col ''p.wp'') (Lit (SInt 1))) (Lit (SInt 1)) (Lit (SInt 0)),
           ''is_winning_pitcher''),
        (CaseWhen (Eq (Col ''p.lp'') (Lit (SInt 1))) (Lit (SInt 1)) (Lit (SInt 0)),
           ''is_losing_pitcher''),
        (CaseWhen (Eq (Col ''p.save'') (Lit (SInt 1))) (Lit (SInt 1)) (Lit (SInt 0)), ''is_save'')]
       (join_on (from_alias ''pitching'' ''p'' st) (from_alias ''gameinfo'' ''g'' st)
          ''p.gid'' ''g.gid'')"

definition fact_game_outcomes_query :: "store \<Rightarrow> table option" where
  "fact_game_outcomes_query st =
     select_as
       [(Col ''g.gid'', ''game_id''),
        (Col ''g.date'', ''game_date''),
        (Col ''g.season'', ''season''),
        (Col ''g.visteam'', ''visiting_team_id''),
        (Col ''g.hometeam'', ''home_team_id''),
        (Col ''g.vruns'', ''visiting_runs''),
        (Col ''g.hruns'', ''home_runs''),
        (CaseWhen (Gt (Col ''g.vruns'') (Col ''g.hruns'')) (Lit (SInt 1)) (Lit (SInt 0)),
           ''visiting_win''),
        (CaseWhen (Gt (Col ''g.hruns'') (Col ''g.vruns'')) (Lit (SInt 1)) (Lit (SInt 0)),
           ''home_win''),
        (CaseWhen (Eq (Col ''g.vruns'') (Col ''g.hruns'')) (Lit (SInt 1)) (Lit (SInt 0)), ''tie''),
        (Col ''g.timeofgame'', ''game_duration_minutes''),
        (Col ''g.attendance'', ''attendance'')]
       (from_alias ''gameinfo'' ''g'' st)"

text \<open>
  The read-back after each fact table:
  \<^verbatim>\<open>print(f"... created with {result[0][0] if result else 0} records")\<close>.
\<close>

definition report_created :: "string \<Rightarrow> world \<Rightarrow> world" where
  "report_created n w =
     (case exec_fetch (count_rows n) w of
        (result, w') \<Rightarrow> say (CreatedWithRecords n (case result of None \<Rightarrow> 0 | Some k \<Rightarrow> k)) w')"

definition create_fact_tables :: "world \<Rightarrow> world" where
  "create_fact_tables w =
     run [say CreatingFactTables,
          exec_stmt (drop_table ''FactBatting''),
          exec_stmt (drop_table ''FactPitching''),
          exec_stmt (drop_table ''FactGameOutcomes''),
          say (Creating ''FactBatting''),
          exec_stmt (create_table_as ''FactBatting'' fact_batting_query),
          report_created ''FactBatting'',
          say (Creating ''FactPitching''),
          exec_stmt (create_table_as ''FactPitching'' fact_pitching_query),
          report_created ''FactPitching'',
          say (Creating ''FactGameOutcomes''),
          exec_stmt (create_table_as ''FactGameOutcomes'' fact_game_outcomes_query),
          report_created ''FactGameOutcomes'',
          say CreatedAllFactTables] w"

subsection \<open>\<^verbatim>\<open>_create_indexes\<close> and \<^verbatim>\<open>_verify_table_counts\<close>\<close>

definition create_indexes :: "world \<Rightarrow> world" where
  "create_indexes w =
     run [say CreatingIndexes,
          exec_stmt (create_index ''idx_player_id'' ''DimPlayer'' ''player_id''),
          exec_stmt (create_index ''idx_team_id'' ''DimTeam'' ''team_id''),
          exec_stmt (create_index ''idx_game_id'' ''DimGame'' ''game_id''),
          exec_stmt (create_index ''idx_game_date'' ''DimGame'' ''game_date''),
          exec_stmt (create_index ''idx_fact_batting_game'' ''FactBatting'' ''game_id''),
          exec_stmt (create_index ''idx_fact_batting_player'' ''FactBatting'' ''player_id''),
          exec_stmt (create_index ''idx_fact_pitching_game'' ''FactPitching'' ''game_id''),
          exec_stmt (create_index ''idx_fact_pitching_player'' ''FactPitching'' ''player_id''),
          exec_stmt (create_index ''idx_fact_outcomes_game'' ''FactGameOutcomes'' ''game_id''),
          say CreatedIndexes] w"

definition warehouse_tables :: "string list" where
  "warehouse_tables =
     [''DimPlayer'', ''DimTeam'', ''DimGame'', ''DimDate'',
      ''FactBatting'', ''FactPitching'', ''FactGameOutcomes'']"

definition report_count :: "string \<Rightarrow> world \<Rightarrow> world" where
  "report_count n w =
     (case exec_fetch (count_rows n) w of
        (Some k, w') \<Rightarrow> say (TableRecords n k) w'
      | (None, w') \<Rightarrow> say (CouldNotRetrieveCount n) w')"

definition verify_table_counts :: "world \<Rightarrow> world" where
  "verify_table_counts w = run (say VerifyingTableCounts # map report_count warehouse_tables) w"

subsection \<open>\<^verbatim>\<open>build_data_warehouse\<close>\<close>

text \<open>
  The method connects, verifies, builds and closes. An exception of the build is caught and
  printed; the rollback that follows undoes nothing, every statement being committed when
  it ran. The early return for missing source tables skips the final line.
\<close>

definition build_data_warehouse :: "(int \<Rightarrow> py_error + date) \<Rightarrow> world \<Rightarrow> world" where
  "build_data_warehouse fromtimestamp w =
     (case verify_source_tables (run [say StartingBuild, say Connected] w) of
        (False, w1) \<Rightarrow> run [say AbortingBuild, say ConnectionClosed] w1
      | (True, w1) \<Rightarrow>
          (case create_dimension_tables fromtimestamp w1 of
             (Some e, w2) \<Rightarrow> run [say (ErrorDuringBuild e), say ConnectionClosed, say BuildCompleted] w2
           | (None, w2) \<Rightarrow>
               run [create_fact_tables, create_indexes, verify_table_counts,
                    say ConnectionClosed, say BuildCompleted] w2))"

subsection \<open>The read queries\<close>

text \<open>
  Both queries first look their fact table up in \<^verbatim>\<open>sqlite_master\<close>. The aggregate statement
  that follows (sums, an average, a rounded quotient) is floating-point SQL and is a
  parameter here: \<open>stats\<close> and \<open>perf\<close> give the rows SQLite answers, or \<open>None\<close> for an
  error. The result of \<open>query_player_stats\<close> is the list it returns; that of
  \<open>query_team_performance\<close> is \<open>None\<close> for Python's \<^verbatim>\<open>None\<close>.
\<close>

definition query_player_stats ::
  "(store \<Rightarrow> sqlval list list option) \<Rightarrow> world \<Rightarrow> sqlval list list \<times> world" where
  "query_player_stats stats w =
     (case exec_fetch (master_lookup ''FactBatting'') w of
        (result, w1) \<Rightarrow>
          (if result = None \<or> result = Some [] then ([], say (TableDoesNotExist ''FactBatting'') w1)
           else
             (case exec_fetch stats w1 of
                (results, w2) \<Rightarrow>
                  (case results of
                     None \<Rightarrow> ([], say NoPlayerStatsFound w2)
                   | Some [] \<Rightarrow> ([], say NoPlayerStatsFound w2)
                   | Some rs \<Rightarrow> (rs, w2)))))"

definition query_team_performance ::
  "(store \<Rightarrow> sqlval list list option) \<Rightarrow> world \<Rightarrow> sqlval list option \<times> world" where
  "query_team_performance perf w =
     (case exec_fetch (master_lookup ''FactGameOutcomes'') w of
        (result, w1) \<Rightarrow>
          (if result = None \<or> result = Some [] then
             (None, say (TableDoesNotExist ''FactGameOutcomes'') w1)
           else
             (case exec_fetch perf w1 of
                (results, w2) \<Rightarrow>
                  (case results of
                     None \<Rightarrow> (None, w2)
                   | Some [] \<Rightarrow> (None, w2)
                   | Some (r # _) \<Rightarrow> (Some r, w2)))))"


section \<open>The union combiner (\<^verbatim>\<open>1.3_Transform.py\<close>)\<close>

text \<open>
  \<^verbatim>\<open>combine_tables_with_union\<close> reads the table names in the order of the catalog
  (\<^verbatim>\<open>sqlite_master\<close>), so the database is here the list of its tables in that order: a
  dropped table leaves the list and a created one is put at its end. The progress lines the
  function prints are not modelled.
\<close>

type_synonym catalog = "(string \<times> table) list"

text \<open>
  \<^verbatim>\<open>re.match(r'^\d{4}.+$', table)\<close>: four digits, then at least one character that is no
  newline, up to the end of the name or to a newline that ends it.
\<close>

definition dot_plus_end :: "string \<Rightarrow> bool" where
  "dot_plus_end rest =
     (let body = (if rest \<noteq> [] \<and> last rest = CHR 0x0A then butlast rest else rest)
      in body \<noteq> [] \<and> CHR 0x0A \<notin> set body)"

definition year_table :: "string \<Rightarrow> bool" where
  "year_table t =
     (case t of
        a # b # c # d # rest \<Rightarrow>
          is_digit a \<and> is_digit b \<and> is_digit c \<and> is_digit d \<and> dot_plus_end rest
      | _ \<Rightarrow> False)"

text \<open>
  The dictionary \<^verbatim>\<open>suffix_groups\<close>, in the order its keys were first inserted, which is the
  order the second loop visits them in.
\<close>

fun add_to_group :: "string \<Rightarrow> string \<Rightarrow> (string \<times> string list) list \<Rightarrow> (string \<times> string list) list" where
  "add_to_group suffix t [] = [(suffix, [t])]"
| "add_to_group suffix t ((s, ts) # gs) =
     (if s = suffix then (s, ts @ [t]) # gs else (s, ts) # add_to_group suffix t gs)"

fun group_tables :: "string list \<Rightarrow> (string \<times> string list) list \<Rightarrow> (string \<times> string list) list" where
  "group_tables [] suffix_groups = suffix_groups"
| "group_tables (t # ts) suffix_groups =
     group_tables ts (if year_table t then add_to_group (drop 4 t) t suffix_groups
                      else suffix_groups)"

text \<open>
  The year literal spliced into the statement is the first four characters of the name;
  SQLite reads the digits as a decimal integer.
\<close>

definition digits_val :: "string \<Rightarrow> int" where
  "digits_val s = foldl (\<lambda>a c. 10 * a + digit_val c) 0 s"

text \<open>
  Names are spliced into the statements between double quotes. A name that holds a double
  quote makes the statement malformed; the model then stops with the error of the
  statement. (The loader of the repository replaces every character of a table name that is
  not alphanumeric by an underscore.)
\<close>

definition sql_ident_ok :: "string \<Rightarrow> bool" where
  "sql_ident_ok n = (CHR 0x22 \<notin> set n)"

text \<open>
  The name the added column gets: SQLite renames a result column whose name is taken
  already (further clashes are not modelled).
\<close>

definition source_year_name :: "string list \<Rightarrow> string" where
  "source_year_name cs = (if ''source_year'' \<in> set cs then ''source_year:1'' else ''source_year'')"

text \<open>
  One arm \<^verbatim>\<open>SELECT "c1", ..., "ck", <year> AS source_year FROM "<table>"\<close>, where the
  columns are all the columns of the table as \<^verbatim>\<open>PRAGMA table_info\<close> lists them: every row
  with the year put at its end.
\<close>

definition year_part :: "string \<Rightarrow> catalog \<Rightarrow> table option" where
  "year_part t c =
     (case map_of c t of
        None \<Rightarrow> None
      | Some tb \<Rightarrow>
          (if sql_ident_ok t \<and> list_all sql_ident_ok (cols tb) then
             Some \<lparr>cols = cols tb @ [source_year_name (cols tb)],
                   rows = map (\<lambda>r. r @ [SInt (digits_val (take 4 t))]) (rows tb)\<rparr>
           else None))"

text \<open>
  \<^verbatim>\<open>a UNION ALL b UNION ALL ...\<close>: all arms must have the same number of columns; the
  result has the column names of the first arm and the rows of all arms, in order.
\<close>

fun union_all :: "table option list \<Rightarrow> table option" where
  "union_all [] = None"
| "union_all [p] = p"
| "union_all (p # ps) =
     (case p of None \<Rightarrow> None
      | Some tp \<Rightarrow>
          (case union_all ps of None \<Rightarrow> None
           | Some tq \<Rightarrow>
               (if length (cols tp) = length (cols tq) then
                  Some \<lparr>cols = cols tp, rows = rows tp @ rows tq\<rparr>
                else None)))"

text \<open>
  The body of the loop over the groups. The statements are not wrapped in any handler: a
  SQLite error leaves the function as an exception, with the database as it is then.
\<close>

definition combine_group :: "string \<Rightarrow> string list \<Rightarrow> catalog \<Rightarrow> py_error option \<times> catalog" where
  "combine_group suffix year_tables c =
     (if length year_tables < 2 then (None, c)
      else if \<not> sql_ident_ok suffix then (Some OperationalError, c)
      else
        (let c1 = filter (\<lambda>nt. fst nt \<noteq> suffix) c in
         case union_all (map (\<lambda>t. year_part t c1) year_tables) of
           None \<Rightarrow> (Some OperationalError, c1)
         | Some tb \<Rightarrow> (None, c1 @ [(suffix, tb)])))"

fun process_groups :: "(string \<times> string list) list \<Rightarrow> catalog \<Rightarrow> py_error option \<times> catalog" where
  "process_groups [] c = (None, c)"
| "process_groups ((suffix, year_tables) # gs) c =
     (case combine_group suffix year_tables c of
        (Some e, c') \<Rightarrow> (Some e, c')
      | (None, c') \<Rightarrow> process_groups gs c')"

definition combine_tables_with_union :: "catalog \<Rightarrow> py_error option \<times> catalog" where
  "combine_tables_with_union c = process_groups (group_tables (map fst c) []) c"

section \<open>Reading a table by column name, and example data\<close>

text \<open>The value a row of a table holds in the column of a given name.\<close>

definition cell :: "table \<Rightarrow> sqlval list \<Rightarrow> string \<Rightarrow> sqlval" where
  "cell tb r c = eval_expr (zip (cols tb) r) (Col c)"

text \<open>
  Exactly one of the three outcome flags of a row of FactGameOutcomes is 1 and the other
  two are 0.
\<close>

definition exactly_one_flag :: "table \<Rightarrow> sqlval list \<Rightarrow> bool" where
  "exactly_one_flag tb r =
     ((cell tb r ''visiting_win'' = SInt 1 \<and> cell tb r ''home_win'' = SInt 0 \<and> cell tb r ''tie'' = SInt 0) \<or>
      (cell tb r ''visiting_win'' = SInt 0 \<and> cell tb r ''home_win'' = SInt 1 \<and> cell tb r ''tie'' = SInt 0) \<or>
      (cell tb r ''visiting_win'' = SInt 0 \<and> cell tb r ''home_win'' = SInt 0 \<and> cell tb r ''tie'' = SInt 1))"

text \<open>
  A small database with the six source tables; the rows of \<^verbatim>\<open>gameinfo\<close> are a parameter.
  \<open>ex_games\<close> is the example of two games (3:5 on 2021-03-01, 4:4 on 2021-03-03);
  \<open>ex_games_null\<close> is a game whose visiting runs are missing.
\<close>

definition ex_gameinfo_cols :: "string list" where
  "ex_gameinfo_cols =
     [''gid'', ''date'', ''season'', ''visteam'', ''hometeam'', ''vruns'', ''hruns'',
      ''timeofgame'', ''attendance'']"

definition ex_store :: "sqlval list list \<Rightarrow> store" where
  "ex_store game_rows =
     [''gameinfo'' \<mapsto> \<lparr>cols = ex_gameinfo_cols, rows = game_rows\<rparr>,
      ''batting'' \<mapsto> \<lparr>cols = [''gid'', ''id'', ''team''], rows = [[SText ''g1'', SText ''p1'', SText ''AAA'']]\<rparr>,
      ''pitching'' \<mapsto> \<lparr>cols = [''gid'', ''id'', ''team''], rows = [[SText ''g1'', SText ''p2'', SText ''BBB'']]\<rparr>,
      ''allplayers'' \<mapsto> \<lparr>cols = [''id'', ''first'', ''last'', ''bat'', ''throw'', ''team''],
          rows = [[SText ''p1'', SText ''Al'', SText ''Bo'', SText ''R'', SText ''L'', SText ''AAA'']]\<rparr>,
      ''teamstats'' \<mapsto> \<lparr>cols = [''gid'', ''team''], rows = [[SText ''g1'', SText ''AAA'']]\<rparr>,
      ''fielding'' \<mapsto> \<lparr>cols = [''gid'', ''id'', ''team''], rows = [[SText ''g1'', SText ''p2'', SText ''BBB'']]\<rparr>]"

definition ex_world :: "sqlval list list \<Rightarrow> world" where
  "ex_world game_rows = \<lparr>db = ex_store game_rows, out = []\<rparr>"

definition ex_games :: "sqlval list list" where
  "ex_games =
     [[SText ''g1'', SText ''2021-03-01'', SInt 2021, SText ''AAA'', SText ''BBB'', SInt 3, SInt 5, SInt 180, SInt 1000],
      [SText ''g2'', SText ''2021-03-03'', SInt 2021, SText ''AAA'', SText ''BBB'', SInt 4, SInt 4, SInt 200, SNull]]"

definition ex_games_null :: "sqlval list list" where
  "ex_games_null =
     [[SText ''g3'', SText ''2021-03-05'', SInt 2021, SText ''AAA'', SText ''BBB'', SNull, SInt 5, SInt 0, SInt 0]]"

definition ex_outcome_cols :: "string list" where
  "ex_outcome_cols = [''game_id'', ''game_date'', ''season'', ''visiting_team_id'',
      ''home_team_id'', ''visiting_runs'', ''home_runs'', ''visiting_win'',
      ''home_win'', ''tie'', ''game_duration_minutes'', ''attendance'']"

text \<open>The example database without two of the required source tables.\<close>

definition ex_store_no_pitching :: store where
  "ex_store_no_pitching = (ex_store ex_games)(''pitching'' := None, ''fielding'' := None)"

text \<open>Two stores hold the same six source tables.\<close>

definition same_sources :: "store \<Rightarrow> store \<Rightarrow> bool" where
  "same_sources st st' = list_all (\<lambda>t. st t = st' t) required_tables"

text \<open>The values of a column of a source table (none when the table is missing).\<close>

definition source_column :: "store \<Rightarrow> string \<Rightarrow> string \<Rightarrow> sqlval list" where
  "source_column st t c = (case st t of None \<Rightarrow> [] | Some tb \<Rightarrow> column_values c tb)"

text \<open>The five columns of a roster row that the DimPlayer query reads.\<close>

definition player_items :: "table \<Rightarrow> sqlval list \<Rightarrow> sqlval list" where
  "player_items ap r =
     [cell ap r ''id'', cell ap r ''first'', cell ap r ''last'', cell ap r ''bat'', cell ap r ''throw'']"

text \<open>
  A roster in which one player identifier has two rows that differ in the batting hand, and
  the example database with that roster.
\<close>

definition ex_allplayers_two_hands :: table where
  "ex_allplayers_two_hands =
     \<lparr>cols = [''id'', ''first'', ''last'', ''bat'', ''throw'', ''team''],
      rows = [[SText ''p1'', SText ''Al'', SText ''Bo'', SText ''R'', SText ''L'', SText ''AAA''],
              [SText ''p1'', SText ''Al'', SText ''Bo'', SText ''B'', SText ''L'', SText ''BBB'']]\<rparr>"

definition ex_world_two_hands :: world where
  "ex_world_two_hands =
     \<lparr>db = (ex_store ex_games)(''allplayers'' \<mapsto> ex_allplayers_two_hands), out = []\<rparr>"

definition ex_dim_player_cols :: "string list" where
  "ex_dim_player_cols = [''player_id'', ''player_name'', ''first_name'', ''last_name'',
                    ''batting_hand'', ''throwing_hand'']"

text \<open>
  The days from one date on: \<open>date_range c k\<close> is \<open>c\<close> and its \<open>k - 1\<close> successors,
  \<open>days_from_to d1 d2\<close> the days from \<open>d1\<close> to \<open>d2\<close> inclusive (none when \<open>d1\<close> is
  after \<open>d2\<close>).
\<close>

fun date_range :: "date \<Rightarrow> nat \<Rightarrow> date list" where
  "date_range c 0 = []"
| "date_range c (Suc k) = c # date_range (next_day c) k"

definition days_from_to :: "date \<Rightarrow> date \<Rightarrow> date list" where
  "days_from_to d1 d2 = date_range d1 (nat (toordinal d2 - toordinal d1 + 1))"


definition ex_games_bad_max :: "sqlval list list" where
  "ex_games_bad_max =
     [[SText ''g1'', SText ''2021-03-01'', SInt 2021, SText ''AAA'', SText ''BBB'', SInt 3, SInt 5, SInt 180, SInt 1000],
      [SText ''g2'', SText ''2021-13-45'', SInt 2021, SText ''AAA'', SText ''BBB'', SInt 4, SInt 4, SInt 200, SNull]]"

text \<open>
  A roster of three rows in which one player is listed for two teams, with the same names
  and hands, and the example database with that roster.
\<close>

definition ex_allplayers_two_teams :: table where
  "ex_allplayers_two_teams =
     \<lparr>cols = [''id'', ''first'', ''last'', ''bat'', ''throw'', ''team''],
      rows = [[SText ''p1'', SText ''Al'', SText ''Bo'', SText ''R'', SText ''L'', SText ''AAA''],
              [SText ''p2'', SText ''Cy'', SText ''Di'', SText ''L'', SText ''R'', SText ''AAA''],
              [SText ''p1'', SText ''Al'', SText ''Bo'', SText ''R'', SText ''L'', SText ''BBB'']]\<rparr>"

definition ex_world_two_teams :: world where
  "ex_world_two_teams =
     \<lparr>db = (ex_store ex_games)(''allplayers'' \<mapsto> ex_allplayers_two_teams), out = []\<rparr>"

text \<open>
  Every player identifier of a roster has a single combination of first name, last name,
  batting hand and throwing hand.
\<close>

definition one_row_per_id :: "table \<Rightarrow> bool" where
  "one_row_per_id ap =
     list_all (\<lambda>r1. list_all (\<lambda>r2. cell ap r1 ''id'' \<noteq> cell ap r2 ''id'' \<or>
                                     player_items ap r1 = player_items ap r2) (rows ap)) (rows ap)"

text \<open>
  A table left over from an earlier run, the example database with such tables under three
  of the warehouse names, and the database without two source tables with one.
\<close>

definition ex_stale_table :: table where
  "ex_stale_table = \<lparr>cols = [''old''], rows = [[SInt 0]]\<rparr>"

definition ex_world_stale :: world where
  "ex_world_stale =
     \<lparr>db = (ex_store ex_games)(''DimPlayer'' \<mapsto> ex_stale_table, ''DimDate'' \<mapsto> ex_stale_table,
                                 ''FactGameOutcomes'' \<mapsto> ex_stale_table),
      out = []\<rparr>"

definition ex_world_stale_missing :: world where
  "ex_world_stale_missing = \<lparr>db = ex_store_no_pitching(''DimPlayer'' \<mapsto> ex_stale_table), out = []\<rparr>"

text \<open>A game whose date is not written in the ISO format.\<close>

definition ex_games_not_iso :: "sqlval list list" where
  "ex_games_not_iso =
     [[SText ''g1'', SText ''04/01/2021'', SInt 2021, SText ''AAA'', SText ''BBB'', SInt 3, SInt 5, SInt 180, SInt 1000]]"

section \<open>Properties of the programs\<close>

subsection \<open>The store after a statement\<close>

lemma run_Nil [simp]: "run [] w = w"
  by (simp add: run_def)

lemma run_Cons [simp]: "run (f # fs) w = run fs (f w)"
  by (simp add: run_def)

lemma db_say [simp]: "db (say e w) = db w"
  by (simp add: say_def)

lemma db_exec_drop [simp]: "db (exec_stmt (drop_table n) w) = (db w)(n := None)"
  by (simp add: exec_stmt_def drop_table_def)

lemma db_exec_create_as:
  "db (exec_stmt (create_table_as n q) w) =
     (case q (db w) of None \<Rightarrow> db w
      | Some tb \<Rightarrow> if db w n \<noteq> None then db w else (db w)(n \<mapsto> tb))"
  by (simp add: exec_stmt_def create_table_as_def split: option.splits)

lemma db_report_created [simp]: "db (report_created n w) = db w"
  by (simp add: report_created_def exec_fetch_def split: option.splits)

lemma db_report_count [simp]: "db (report_count n w) = db w"
  by (simp add: report_count_def exec_fetch_def split: option.splits)

lemma db_exec_create_index [simp]: "db (exec_stmt (create_index i t c) w) = db w"
  by (simp add: exec_stmt_def create_index_def split: option.splits)

subsection \<open>The order of values\<close>

lemma text_lt_trichotomy:
  "(text_lt s t \<and> \<not> text_lt t s \<and> s \<noteq> t) \<or> (\<not> text_lt s t \<and> text_lt t s \<and> s \<noteq> t) \<or>
   (\<not> text_lt s t \<and> \<not> text_lt t s \<and> s = t)"
proof (induction s t rule: text_lt.induct)
  case (4 x xs y ys)
  have "(of_char x :: nat) = of_char y \<Longrightarrow> x = y"
    by simp
  with 4 show ?case
    by (cases "(of_char x :: nat) < of_char y"; cases "(of_char y :: nat) < of_char x") auto
qed simp_all

lemma val_lt_trichotomy:
  assumes "a \<noteq> SNull" "b \<noteq> SNull"
  shows "(val_lt a b \<and> \<not> val_lt b a \<and> a \<noteq> b) \<or> (\<not> val_lt a b \<and> val_lt b a \<and> a \<noteq> b) \<or>
         (\<not> val_lt a b \<and> \<not> val_lt b a \<and> a = b)"
  using assms text_lt_trichotomy by (cases a; cases b) auto

subsection \<open>The game-outcome fact\<close>

lemma fact_game_outcomes_created:
  assumes "db (create_fact_tables w) ''FactGameOutcomes'' = Some tb"
  shows "\<exists>st. fact_game_outcomes_query st = Some tb"
proof -
  define w1 where "w1 = run [say CreatingFactTables,
          exec_stmt (drop_table ''FactBatting''),
          exec_stmt (drop_table ''FactPitching''),
          exec_stmt (drop_table ''FactGameOutcomes''),
          say (Creating ''FactBatting''),
          exec_stmt (create_table_as ''FactBatting'' fact_batting_query),
          report_created ''FactBatting'',
          say (Creating ''FactPitching''),
          exec_stmt (create_table_as ''FactPitching'' fact_pitching_query),
          report_created ''FactPitching'',
          say (Creating ''FactGameOutcomes'')] w"
  have none: "db w1 ''FactGameOutcomes'' = None"
    unfolding w1_def
    by (simp add: db_exec_create_as split: option.split)
  have "db (create_fact_tables w) = db (exec_stmt (create_table_as ''FactGameOutcomes'' fact_game_outcomes_query) w1)"
    unfolding w1_def create_fact_tables_def by simp
  with assms none show ?thesis
    by (auto simp: db_exec_create_as split: option.splits if_splits)
qed

lemma fact_game_outcomes_row:
  assumes q: "fact_game_outcomes_query st = Some tb" and r: "r \<in> set (rows tb)"
  shows "cell tb r ''visiting_win'' =
           (if sql_gt (cell tb r ''visiting_runs'') (cell tb r ''home_runs'') = TTrue then SInt 1 else SInt 0) \<and>
         cell tb r ''home_win'' =
           (if sql_gt (cell tb r ''home_runs'') (cell tb r ''visiting_runs'') = TTrue then SInt 1 else SInt 0) \<and>
         cell tb r ''tie'' =
           (if sql_eq (cell tb r ''visiting_runs'') (cell tb r ''home_runs'') = TTrue then SInt 1 else SInt 0)"
proof -
  from q obtain src where src: "from_alias ''gameinfo'' ''g'' st = Some src"
    by (auto simp: fact_game_outcomes_query_def select_as_def split: option.splits)
  from q src have c: "cols tb = [''game_id'', ''game_date'', ''season'', ''visiting_team_id'',
      ''home_team_id'', ''visiting_runs'', ''home_runs'', ''visiting_win'',
      ''home_win'', ''tie'', ''game_duration_minutes'', ''attendance'']"
    by (auto simp: fact_game_outcomes_query_def select_as_def split: if_splits)
  from q src r obtain g where
    g: "r = [eval_expr g (Col ''g.gid''), eval_expr g (Col ''g.date''), eval_expr g (Col ''g.season''),
             eval_expr g (Col ''g.visteam''), eval_expr g (Col ''g.hometeam''),
             eval_expr g (Col ''g.vruns''), eval_expr g (Col ''g.hruns''),
             eval_expr g (CaseWhen (Gt (Col ''g.vruns'') (Col ''g.hruns'')) (Lit (SInt 1)) (Lit (SInt 0))),
             eval_expr g (CaseWhen (Gt (Col ''g.hruns'') (Col ''g.vruns'')) (Lit (SInt 1)) (Lit (SInt 0))),
             eval_expr g (CaseWhen (Eq (Col ''g.vruns'') (Col ''g.hruns'')) (Lit (SInt 1)) (Lit (SInt 0))),
             eval_expr g (Col ''g.timeofgame''), eval_expr g (Col ''g.attendance'')]"
    by (auto simp: fact_game_outcomes_query_def select_as_def split: if_splits)
  have vr: "cell tb r ''visiting_runs'' = eval_expr g (Col ''g.vruns'')"
    unfolding cell_def c g by simp
  have hr: "cell tb r ''home_runs'' = eval_expr g (Col ''g.hruns'')"
    unfolding cell_def c g by simp
  have vw: "cell tb r ''visiting_win'' =
      eval_expr g (CaseWhen (Gt (Col ''g.vruns'') (Col ''g.hruns'')) (Lit (SInt 1)) (Lit (SInt 0)))"
    unfolding cell_def c g by simp
  have hw: "cell tb r ''home_win'' =
      eval_expr g (CaseWhen (Gt (Col ''g.hruns'') (Col ''g.vruns'')) (Lit (SInt 1)) (Lit (SInt 0)))"
    unfolding cell_def c g by simp
  have ti: "cell tb r ''tie'' =
      eval_expr g (CaseWhen (Eq (Col ''g.vruns'') (Col ''g.hruns'')) (Lit (SInt 1)) (Lit (SInt 0)))"
    unfolding cell_def c g by simp
  show ?thesis
    unfolding vr hr vw hw ti by simp
qed

lemma ex_outcomes:
  "db (create_fact_tables (ex_world ex_games)) ''FactGameOutcomes'' =
     Some \<lparr>cols = ex_outcome_cols,
           rows = [[SText ''g1'', SText ''2021-03-01'', SInt 2021, SText ''AAA'', SText ''BBB'',
                    SInt 3, SInt 5, SInt 0, SInt 1, SInt 0, SInt 180, SInt 1000],
                   [SText ''g2'', SText ''2021-03-03'', SInt 2021, SText ''AAA'', SText ''BBB'',
                    SInt 4, SInt 4, SInt 0, SInt 0, SInt 1, SInt 200, SNull]]\<rparr>"
  by code_simp

lemma ex_outcomes_null:
  "db (create_fact_tables (ex_world ex_games_null)) ''FactGameOutcomes'' =
     Some \<lparr>cols = ex_outcome_cols,
           rows = [[SText ''g3'', SText ''2021-03-05'', SInt 2021, SText ''AAA'', SText ''BBB'',
                    SNull, SInt 5, SInt 0, SInt 0, SInt 0, SInt 0, SInt 0]]\<rparr>"
  by code_simp

text \<open>
  Claim C1, as the code has it. For every row of the FactGameOutcomes table that
  \<open>create_fact_tables\<close> produces: when \<open>visiting_runs\<close> and \<open>home_runs\<close> are both not NULL,
  exactly one of \<open>visiting_win\<close>, \<open>home_win\<close>, \<open>tie\<close> is 1 and the other two are 0, and
  the comparison of the two run values decides which (greater visiting runs: visiting win;
  greater home runs: home win; equal: tie). When one of the two is NULL, all three flags
  are 0.
\<close>

theorem game_outcome_flags:
  assumes "db (create_fact_tables w) ''FactGameOutcomes'' = Some tb" and "r \<in> set (rows tb)"
  shows "(cell tb r ''visiting_runs'' \<noteq> SNull \<and> cell tb r ''home_runs'' \<noteq> SNull \<longrightarrow>
            exactly_one_flag tb r \<and>
            (cell tb r ''visiting_win'' = SInt 1 \<longleftrightarrow>
               val_lt (cell tb r ''home_runs'') (cell tb r ''visiting_runs'')) \<and>
            (cell tb r ''home_win'' = SInt 1 \<longleftrightarrow>
               val_lt (cell tb r ''visiting_runs'') (cell tb r ''home_runs'')) \<and>
            (cell tb r ''tie'' = SInt 1 \<longleftrightarrow>
               cell tb r ''visiting_runs'' = cell tb r ''home_runs'')) \<and>
         (cell tb r ''visiting_runs'' = SNull \<or> cell tb r ''home_runs'' = SNull \<longrightarrow>
            cell tb r ''visiting_win'' = SInt 0 \<and> cell tb r ''home_win'' = SInt 0 \<and>
            cell tb r ''tie'' = SInt 0)"
proof -
  from assms(1) obtain st where "fact_game_outcomes_query st = Some tb"
    using fact_game_outcomes_created by blast
  from fact_game_outcomes_row [OF this assms(2)]
  have flags:
    "cell tb r ''visiting_win'' =
       (if sql_gt (cell tb r ''visiting_runs'') (cell tb r ''home_runs'') = TTrue then SInt 1 else SInt 0)"
    "cell tb r ''home_win'' =
       (if sql_gt (cell tb r ''home_runs'') (cell tb r ''visiting_runs'') = TTrue then SInt 1 else SInt 0)"
    "cell tb r ''tie'' =
       (if sql_eq (cell tb r ''visiting_runs'') (cell tb r ''home_runs'') = TTrue then SInt 1 else SInt 0)"
    by simp_all
  show ?thesis
  proof (cases "cell tb r ''visiting_runs'' = SNull \<or> cell tb r ''home_runs'' = SNull")
    case True
    then show ?thesis
      using flags by (auto simp: sql_gt_def sql_eq_def)
  next
    case False
    then have nn: "cell tb r ''visiting_runs'' \<noteq> SNull" "cell tb r ''home_runs'' \<noteq> SNull"
      by simp_all
    from val_lt_trichotomy [OF nn] flags nn show ?thesis
      unfolding exactly_one_flag_def sql_gt_def sql_eq_def by auto
  qed
qed

theorem game_outcome_flags_witness:
  "db (create_fact_tables (ex_world ex_games)) ''FactGameOutcomes'' \<noteq> None \<and>
   (\<exists>tb. db (create_fact_tables (ex_world ex_games)) ''FactGameOutcomes'' = Some tb \<and>
      [SText ''g1'', SText ''2021-03-01'', SInt 2021, SText ''AAA'', SText ''BBB'',
       SInt 3, SInt 5, SInt 0, SInt 1, SInt 0, SInt 180, SInt 1000] \<in> set (rows tb) \<and>
      exactly_one_flag tb [SText ''g1'', SText ''2021-03-01'', SInt 2021, SText ''AAA'', SText ''BBB'',
       SInt 3, SInt 5, SInt 0, SInt 1, SInt 0, SInt 180, SInt 1000])"
  using game_outcome_flags [OF ex_outcomes,
      of "[SText ''g1'', SText ''2021-03-01'', SInt 2021, SText ''AAA'', SText ''BBB'',
           SInt 3, SInt 5, SInt 0, SInt 1, SInt 0, SInt 180, SInt 1000]"]
  by (simp add: ex_outcomes cell_def ex_outcome_cols_def)

text \<open>
  The claim as stated (exactly one flag in every row) fails for a game whose visiting runs
  are NULL: the row produced has the three flags 0.
\<close>

theorem game_outcome_flags_counterexample:
  "db (create_fact_tables (ex_world ex_games_null)) ''FactGameOutcomes'' =
     Some \<lparr>cols = ex_outcome_cols,
           rows = [[SText ''g3'', SText ''2021-03-05'', SInt 2021, SText ''AAA'', SText ''BBB'',
                    SNull, SInt 5, SInt 0, SInt 0, SInt 0, SInt 0, SInt 0]]\<rparr> \<and>
   \<not> exactly_one_flag \<lparr>cols = ex_outcome_cols, rows = []\<rparr>
       [SText ''g3'', SText ''2021-03-05'', SInt 2021, SText ''AAA'', SText ''BBB'',
        SNull, SInt 5, SInt 0, SInt 0, SInt 0, SInt 0, SInt 0]"
  by (simp add: ex_outcomes_null exactly_one_flag_def cell_def ex_outcome_cols_def)

subsection \<open>The missing-source guard\<close>

lemma verify_loop_filter:
  "verify_loop ts missing_tables w = (missing_tables @ filter (\<lambda>t. db w t = None) ts, w)"
  by (induction ts arbitrary: missing_tables) (simp_all add: exec_fetch_def master_lookup_def)

lemma verify_source_tables_eq:
  "verify_source_tables w =
     (if filter (\<lambda>t. db w t = None) required_tables \<noteq> []
      then (False, say (MissingSourceTables (filter (\<lambda>t. db w t = None) required_tables)) w)
      else (True, w))"
  by (simp add: verify_source_tables_def verify_loop_filter)

text \<open>
  Claim C4. When one of the six required source tables is missing, the build changes
  nothing in the database (no statement but the six look-ups runs), and it prints the
  list of exactly the required tables that are missing, then that it aborts.
\<close>

theorem missing_source_guard:
  assumes "\<exists>t \<in> set required_tables. db w t = None"
  shows "db (build_data_warehouse fromtimestamp w) = db w \<and>
         out (build_data_warehouse fromtimestamp w) =
           out w @ [StartingBuild, Connected,
                    MissingSourceTables (filter (\<lambda>t. db w t = None) required_tables),
                    AbortingBuild, ConnectionClosed]"
proof -
  from assms have ne: "filter (\<lambda>t. db w t = None) required_tables \<noteq> []"
    by (simp add: filter_empty_conv)
  have "filter (\<lambda>t. db (say Connected (say StartingBuild w)) t = None) required_tables
        = filter (\<lambda>t. db w t = None) required_tables"
    by simp
  with ne show ?thesis
    by (simp add: build_data_warehouse_def verify_source_tables_eq say_def)
qed

theorem missing_source_guard_witness:
  "(\<exists>t \<in> set required_tables. ex_store_no_pitching t = None) \<and>
   db (build_data_warehouse (\<lambda>n. Inl OSError) \<lparr>db = ex_store_no_pitching, out = []\<rparr>) = ex_store_no_pitching \<and>
   out (build_data_warehouse (\<lambda>n. Inl OSError) \<lparr>db = ex_store_no_pitching, out = []\<rparr>) =
     [StartingBuild, Connected, MissingSourceTables [''pitching'', ''fielding''],
      AbortingBuild, ConnectionClosed]"
proof -
  have h: "\<exists>t \<in> set required_tables. db \<lparr>db = ex_store_no_pitching, out = []\<rparr> t = None"
    by (simp add: required_tables_def ex_store_no_pitching_def)
  have f: "filter (\<lambda>t. ex_store_no_pitching t = None) required_tables = [''pitching'', ''fielding'']"
    by (simp add: required_tables_def ex_store_no_pitching_def ex_store_def)
  show ?thesis
    using missing_source_guard [OF h, of "\<lambda>n. Inl OSError"] h f by simp
qed

subsection \<open>The read queries on a database without the fact tables\<close>

text \<open>
  Claim C9. When FactBatting does not exist, \<open>query_player_stats\<close> returns the empty list;
  when FactGameOutcomes does not exist, \<open>query_team_performance\<close> returns \<^verbatim>\<open>None\<close>. Both
  print that the table does not exist, raise nothing and leave the database as it is.
\<close>

theorem query_without_fact_table:
  "(db w ''FactBatting'' = None \<longrightarrow>
      fst (query_player_stats stats w) = [] \<and> db (snd (query_player_stats stats w)) = db w \<and>
      out (snd (query_player_stats stats w)) = out w @ [TableDoesNotExist ''FactBatting'']) \<and>
   (db w ''FactGameOutcomes'' = None \<longrightarrow>
      fst (query_team_performance perf w) = None \<and> db (snd (query_team_performance perf w)) = db w \<and>
      out (snd (query_team_performance perf w)) = out w @ [TableDoesNotExist ''FactGameOutcomes''])"
  by (simp add: query_player_stats_def query_team_performance_def exec_fetch_def master_lookup_def say_def)

theorem query_without_fact_table_witness:
  "ex_store ex_games ''FactBatting'' = None \<and> ex_store ex_games ''FactGameOutcomes'' = None \<and>
   fst (query_player_stats (\<lambda>st. None) (ex_world ex_games)) = [] \<and>
   out (snd (query_player_stats (\<lambda>st. None) (ex_world ex_games))) = [TableDoesNotExist ''FactBatting''] \<and>
   fst (query_team_performance (\<lambda>st. None) (ex_world ex_games)) = None \<and>
   out (snd (query_team_performance (\<lambda>st. None) (ex_world ex_games))) = [TableDoesNotExist ''FactGameOutcomes'']"
  using query_without_fact_table [of "ex_world ex_games" "\<lambda>st. None" "\<lambda>st. None"]
  by (simp add: ex_world_def ex_store_def)

subsection \<open>The statements read only the source tables\<close>

lemma same_sources_refl [simp]: "same_sources st st"
  by (simp add: same_sources_def list_all_iff)

lemma same_sources_upd:
  "n \<notin> set required_tables \<Longrightarrow> same_sources (st(n := v)) st' = same_sources st st'"
  by (auto simp: same_sources_def list_all_iff)

lemma same_sources_D:
  assumes "same_sources st st'"
  shows "st ''gameinfo'' = st' ''gameinfo''" "st ''batting'' = st' ''batting''"
    "st ''pitching'' = st' ''pitching''" "st ''allplayers'' = st' ''allplayers''"
    "st ''teamstats'' = st' ''teamstats''" "st ''fielding'' = st' ''fielding''"
  using assms by (simp_all add: same_sources_def required_tables_def)

lemma dim_player_query_cong: "same_sources st st' \<Longrightarrow> dim_player_query st = dim_player_query st'"
  by (simp add: dim_player_query_def from_table_def same_sources_D)

lemma dim_team_query_cong: "same_sources st st' \<Longrightarrow> dim_team_query st = dim_team_query st'"
  by (simp add: dim_team_query_def select_column_def same_sources_D)

lemma dim_game_query_cong: "same_sources st st' \<Longrightarrow> dim_game_query st = dim_game_query st'"
  by (simp add: dim_game_query_def from_table_def same_sources_D)

lemma fact_batting_query_cong: "same_sources st st' \<Longrightarrow> fact_batting_query st = fact_batting_query st'"
  by (simp add: fact_batting_query_def from_alias_def same_sources_D)

lemma fact_pitching_query_cong: "same_sources st st' \<Longrightarrow> fact_pitching_query st = fact_pitching_query st'"
  by (simp add: fact_pitching_query_def from_alias_def same_sources_D)

lemma fact_game_outcomes_query_cong:
  "same_sources st st' \<Longrightarrow> fact_game_outcomes_query st = fact_game_outcomes_query st'"
  by (simp add: fact_game_outcomes_query_def from_alias_def same_sources_D)

lemma db_exec_create_as_fresh:
  "db w n = None \<Longrightarrow> db (exec_stmt (create_table_as n q) w) = (db w)(n := q (db w))"
  by (auto simp: db_exec_create_as split: option.splits)

lemma warehouse_not_required:
  "''DimPlayer'' \<notin> set required_tables" "''DimTeam'' \<notin> set required_tables"
  "''DimGame'' \<notin> set required_tables" "''DimDate'' \<notin> set required_tables"
  "''FactBatting'' \<notin> set required_tables" "''FactPitching'' \<notin> set required_tables"
  "''FactGameOutcomes'' \<notin> set required_tables"
  by (simp_all add: required_tables_def)

subsection \<open>The store after each stage of the build\<close>

lemma db_create_dim_player_team_game:
  "db (create_dim_player_team_game w) =
     (db w)(''DimDate'' := None, ''DimPlayer'' := dim_player_query (db w),
            ''DimTeam'' := dim_team_query (db w), ''DimGame'' := dim_game_query (db w))"
proof -
  define s0 where "s0 = (db w)(''DimPlayer'' := None, ''DimTeam'' := None, ''DimGame'' := None, ''DimDate'' := None)"
  define w0 where "w0 = run [say CreatingDimensionTables,
             exec_stmt (drop_table ''DimPlayer''),
             exec_stmt (drop_table ''DimTeam''),
             exec_stmt (drop_table ''DimGame''),
             exec_stmt (drop_table ''DimDate''),
             say (Creating ''DimPlayer'')] w"
  have w0: "db w0 = s0"
    unfolding w0_def s0_def by simp
  have src0: "same_sources s0 (db w)"
    unfolding s0_def by (simp add: same_sources_upd warehouse_not_required)
  define w1 where "w1 = say (Creating ''DimTeam'') (exec_stmt (create_table_as ''DimPlayer'' dim_player_query) w0)"
  have w1: "db w1 = s0(''DimPlayer'' := dim_player_query (db w))"
    unfolding w1_def using w0 dim_player_query_cong [OF src0]
    by (simp add: db_exec_create_as_fresh s0_def)
  have src1: "same_sources (db w1) (db w)"
    unfolding w1 using src0 by (simp add: same_sources_upd warehouse_not_required)
  define w2 where "w2 = say (Creating ''DimGame'') (exec_stmt (create_table_as ''DimTeam'' dim_team_query) w1)"
  have w2: "db w2 = (db w1)(''DimTeam'' := dim_team_query (db w))"
    unfolding w2_def using dim_team_query_cong [OF src1]
    by (simp add: db_exec_create_as_fresh w1 s0_def)
  have src2: "same_sources (db w2) (db w)"
    unfolding w2 using src1 by (simp add: same_sources_upd warehouse_not_required)
  have w3: "db (exec_stmt (create_table_as ''DimGame'' dim_game_query) w2)
            = (db w2)(''DimGame'' := dim_game_query (db w))"
    using dim_game_query_cong [OF src2]
    by (simp add: db_exec_create_as_fresh w2 w1 s0_def)
  have "create_dim_player_team_game w = exec_stmt (create_table_as ''DimGame'' dim_game_query) w2"
    unfolding create_dim_player_team_game_def w2_def w1_def w0_def by simp
  then have "db (create_dim_player_team_game w) = (db w2)(''DimGame'' := dim_game_query (db w))"
    using w3 by simp
  also have "\<dots> = (db w)(''DimDate'' := None, ''DimPlayer'' := dim_player_query (db w),
            ''DimTeam'' := dim_team_query (db w), ''DimGame'' := dim_game_query (db w))"
    unfolding w2 w1 s0_def by (rule ext) simp
  finally show ?thesis .
qed

lemma db_create_fact_tables:
  "db (create_fact_tables w) =
     (db w)(''FactBatting'' := fact_batting_query (db w),
            ''FactPitching'' := fact_pitching_query (db w),
            ''FactGameOutcomes'' := fact_game_outcomes_query (db w))"
proof -
  define s0 where "s0 = (db w)(''FactBatting'' := None, ''FactPitching'' := None, ''FactGameOutcomes'' := None)"
  define w0 where "w0 = run [say CreatingFactTables,
          exec_stmt (drop_table ''FactBatting''),
          exec_stmt (drop_table ''FactPitching''),
          exec_stmt (drop_table ''FactGameOutcomes''),
          say (Creating ''FactBatting'')] w"
  have w0: "db w0 = s0"
    unfolding w0_def s0_def by simp
  have src0: "same_sources s0 (db w)"
    unfolding s0_def by (simp add: same_sources_upd warehouse_not_required)
  define w1 where "w1 = say (Creating ''FactPitching'') (report_created ''FactBatting''
     (exec_stmt (create_table_as ''FactBatting'' fact_batting_query) w0))"
  have w1: "db w1 = s0(''FactBatting'' := fact_batting_query (db w))"
    unfolding w1_def using w0 fact_batting_query_cong [OF src0]
    by (simp add: db_exec_create_as_fresh s0_def)
  have src1: "same_sources (db w1) (db w)"
    unfolding w1 using src0 by (simp add: same_sources_upd warehouse_not_required)
  define w2 where "w2 = say (Creating ''FactGameOutcomes'') (report_created ''FactPitching''
     (exec_stmt (create_table_as ''FactPitching'' fact_pitching_query) w1))"
  have w2: "db w2 = (db w1)(''FactPitching'' := fact_pitching_query (db w))"
    unfolding w2_def using fact_pitching_query_cong [OF src1]
    by (simp add: db_exec_create_as_fresh w1 s0_def)
  have src2: "same_sources (db w2) (db w)"
    unfolding w2 using src1 by (simp add: same_sources_upd warehouse_not_required)
  have w3: "db (exec_stmt (create_table_as ''FactGameOutcomes'' fact_game_outcomes_query) w2)
            = (db w2)(''FactGameOutcomes'' := fact_game_outcomes_query (db w))"
    using fact_game_outcomes_query_cong [OF src2]
    by (simp add: db_exec_create_as_fresh w2 w1 s0_def)
  have "db (create_fact_tables w) = db (exec_stmt (create_table_as ''FactGameOutcomes'' fact_game_outcomes_query) w2)"
    unfolding create_fact_tables_def w2_def w1_def w0_def by simp
  then show ?thesis
    unfolding w3 w2 w1 s0_def by (auto simp: fun_eq_iff)
qed

lemma db_create_indexes [simp]: "db (create_indexes w) = db w"
  by (simp add: create_indexes_def)

lemma db_run_report_counts [simp]: "db (run (map report_count ns) w) = db w"
  by (induction ns arbitrary: w) simp_all

lemma db_verify_table_counts [simp]: "db (verify_table_counts w) = db w"
  by (simp add: verify_table_counts_def)

lemma db_exec_insert_other:
  "n \<noteq> t \<Longrightarrow> db (exec_stmt (insert_into t r) w) n = db w n"
  by (simp add: exec_stmt_def insert_into_def split: option.splits)

lemma db_date_loop_other:
  "n \<noteq> ''DimDate'' \<Longrightarrow> db (snd (date_loop c e w)) n = db w n"
proof (induction c e w rule: date_loop.induct)
  case (1 c e w)
  show ?case
  proof (cases "date_le c e")
    case False
    then show ?thesis by (simp add: date_loop.simps)
  next
    case True
    show ?thesis
    proof (cases "add_one_day c")
      case (Inl err)
      with True 1(2) show ?thesis
        by (simp add: date_loop.simps [of c e w] db_exec_insert_other)
    next
      case (Inr nxt)
      with True 1(1) [OF True Inr 1(2)] 1(2) show ?thesis
        by (simp add: date_loop.simps [of c e w] db_exec_insert_other)
    qed
  qed
qed

lemma db_exec_create_table_other:
  "n \<noteq> t \<Longrightarrow> db (exec_stmt (create_table t cs) w) n = db w n"
  by (simp add: exec_stmt_def create_table_def)

lemma db_exec_fetch [simp]: "db (snd (exec_fetch q w)) = db w"
  by (simp add: exec_fetch_def split: option.splits)

lemma exec_fetch_db: "exec_fetch q w = (r, w') \<Longrightarrow> db w' = db w"
  using db_exec_fetch [of q w] by simp

lemma date_loop_other:
  "date_loop c e w = (r, w') \<Longrightarrow> n \<noteq> ''DimDate'' \<Longrightarrow> db w' n = db w n"
  using db_date_loop_other [of n c e w] by simp

lemma db_create_dim_date_other:
  assumes "n \<noteq> ''DimDate''"
  shows "db (snd (create_dim_date fromtimestamp w)) n = db w n"
  unfolding create_dim_date_def
  using assms
  by (auto simp: Let_def db_exec_create_table_other
           split: option.splits sum.splits prod.splits
           dest!: exec_fetch_db dest: date_loop_other)

lemma db_create_dimension_tables_other:
  "n \<noteq> ''DimDate'' \<Longrightarrow>
   db (snd (create_dimension_tables fromtimestamp w)) n =
     ((db w)(''DimPlayer'' := dim_player_query (db w), ''DimTeam'' := dim_team_query (db w),
             ''DimGame'' := dim_game_query (db w))) n"
  by (simp add: create_dimension_tables_def db_create_dim_date_other db_create_dim_player_team_game)

lemma db_build_data_warehouse:
  "db (build_data_warehouse fromtimestamp w) =
     (if filter (\<lambda>t. db w t = None) required_tables \<noteq> [] then db w
      else (case fst (create_dimension_tables fromtimestamp (say Connected (say StartingBuild w))) of
              Some e \<Rightarrow> db (snd (create_dimension_tables fromtimestamp (say Connected (say StartingBuild w))))
            | None \<Rightarrow> db (create_fact_tables
                (snd (create_dimension_tables fromtimestamp (say Connected (say StartingBuild w)))))))"
  by (simp add: build_data_warehouse_def verify_source_tables_eq split: prod.splits option.splits)

lemma db_build_dim:
  assumes "list_all (\<lambda>t. db w t \<noteq> None) required_tables"
    and "n = ''DimPlayer'' \<or> n = ''DimTeam'' \<or> n = ''DimGame''"
  shows "db (build_data_warehouse fromtimestamp w) n =
     ((db w)(''DimPlayer'' := dim_player_query (db w), ''DimTeam'' := dim_team_query (db w),
             ''DimGame'' := dim_game_query (db w))) n"
proof -
  define w1 where "w1 = say Connected (say StartingBuild w)"
  have w1: "db w1 = db w"
    by (simp add: w1_def)
  from assms(1) have present: "filter (\<lambda>t. db w t = None) required_tables = []"
    by (simp add: filter_empty_conv list_all_iff)
  from assms(2) have ne: "n \<noteq> ''DimDate''" "n \<noteq> ''FactBatting''" "n \<noteq> ''FactPitching''"
    "n \<noteq> ''FactGameOutcomes''"
    by auto
  have dims: "db (snd (create_dimension_tables fromtimestamp w1)) n =
     ((db w)(''DimPlayer'' := dim_player_query (db w), ''DimTeam'' := dim_team_query (db w),
             ''DimGame'' := dim_game_query (db w))) n"
    using db_create_dimension_tables_other [OF ne(1), of fromtimestamp w1] w1 by simp
  have facts: "db (create_fact_tables (snd (create_dimension_tables fromtimestamp w1))) n =
      db (snd (create_dimension_tables fromtimestamp w1)) n"
    using ne by (simp add: db_create_fact_tables)
  have "db (build_data_warehouse fromtimestamp w) n =
      db (snd (create_dimension_tables fromtimestamp w1)) n"
    unfolding db_build_data_warehouse w1_def [symmetric]
    using present facts by (cases "fst (create_dimension_tables fromtimestamp w1)") simp_all
  with dims show ?thesis
    by simp
qed

subsection \<open>The team dimension\<close>

lemma union_arms_Some:
  "union_arms arms = Some vs \<Longrightarrow>
     distinct vs \<and> list_all (\<lambda>a. a \<noteq> None) arms \<and>
     set vs = (\<Union>a \<in> set arms. case a of None \<Rightarrow> {} | Some xs \<Rightarrow> set xs)"
proof (induction arms arbitrary: vs)
  case Nil
  then show ?case by simp
next
  case (Cons a arms)
  from Cons.prems obtain xs ws where a: "a = Some xs" and ws: "union_arms arms = Some ws"
    and vs: "vs = remdups (xs @ ws)"
    by (auto split: option.splits)
  from Cons.IH [OF ws] show ?case
    unfolding a vs by auto
qed

lemma select_column_source:
  "select_column c t st = Some xs \<Longrightarrow> xs = source_column st t c"
  by (auto simp: select_column_def source_column_def split: option.splits if_splits)

lemma column_values_singleton:
  "column_values c \<lparr>cols = [c], rows = map (\<lambda>v. [v]) vs\<rparr> = vs"
  by (simp add: column_values_def comp_def)

lemma dim_team_query_Some:
  assumes "dim_team_query st = Some tb"
  shows "cols tb = [''team_id''] \<and> distinct (column_values ''team_id'' tb) \<and>
     set (column_values ''team_id'' tb) =
       set (source_column st ''allplayers'' ''team'') \<union> set (source_column st ''gameinfo'' ''visteam'') \<union>
       set (source_column st ''gameinfo'' ''hometeam'') \<union> set (source_column st ''teamstats'' ''team'') \<union>
       set (source_column st ''batting'' ''team'') \<union> set (source_column st ''pitching'' ''team'') \<union>
       set (source_column st ''fielding'' ''team'')"
proof -
  define arms where "arms = [select_column ''team'' ''allplayers'' st,
         select_column ''visteam'' ''gameinfo'' st,
         select_column ''hometeam'' ''gameinfo'' st,
         select_column ''team'' ''teamstats'' st,
         select_column ''team'' ''batting'' st,
         select_column ''team'' ''pitching'' st,
         select_column ''team'' ''fielding'' st]"
  from assms obtain vs where u: "union_arms arms = Some vs"
    unfolding dim_team_query_def arms_def by (auto split: option.splits)
  from assms u have tb: "tb = \<lparr>cols = [''team_id''], rows = remdups (map (\<lambda>v. [v]) vs)\<rparr>"
    unfolding dim_team_query_def arms_def [symmetric]
    by (auto simp: select_as_def distinct_rows_def comp_def)
  from union_arms_Some [OF u] have d: "distinct vs" and all: "list_all (\<lambda>a. a \<noteq> None) arms"
    and sv: "set vs = (\<Union>a \<in> set arms. case a of None \<Rightarrow> {} | Some xs \<Rightarrow> set xs)"
    by simp_all
  from d have "distinct (map (\<lambda>v. [v]) vs)"
    by (simp add: distinct_map inj_on_def)
  then have rd: "remdups (map (\<lambda>v. [v]) vs) = map (\<lambda>v. [v]) vs"
    by (rule distinct_remdups_id)
  have cv: "column_values ''team_id'' tb = vs"
    unfolding tb rd by (rule column_values_singleton)
  from all obtain a1 a2 a3 a4 a5 a6 a7 where
    arm: "select_column ''team'' ''allplayers'' st = Some a1"
         "select_column ''visteam'' ''gameinfo'' st = Some a2"
         "select_column ''hometeam'' ''gameinfo'' st = Some a3"
         "select_column ''team'' ''teamstats'' st = Some a4"
         "select_column ''team'' ''batting'' st = Some a5"
         "select_column ''team'' ''pitching'' st = Some a6"
         "select_column ''team'' ''fielding'' st = Some a7"
    unfolding arms_def by auto
  have "set vs = set a1 \<union> set a2 \<union> set a3 \<union> set a4 \<union> set a5 \<union> set a6 \<union> set a7"
    unfolding sv arms_def arm by auto
  with arm [THEN select_column_source] d cv tb show ?thesis
    by simp
qed

text \<open>
  Claim C6. When the build runs (the six source tables exist) and produces DimTeam, the
  table has the single column \<open>team_id\<close>, its values are pairwise different, and the set
  of its values is the union of the values of \<^verbatim>\<open>allplayers.team\<close>, \<^verbatim>\<open>gameinfo.visteam\<close>,
  \<^verbatim>\<open>gameinfo.hometeam\<close>, \<^verbatim>\<open>teamstats.team\<close>, \<^verbatim>\<open>batting.team\<close>, \<^verbatim>\<open>pitching.team\<close> and
  \<^verbatim>\<open>fielding.team\<close>.
\<close>

theorem dim_team_is_union:
  assumes "\<forall>t \<in> set required_tables. db w t \<noteq> None"
    and "db (build_data_warehouse fromtimestamp w) ''DimTeam'' = Some tb"
  shows "cols tb = [''team_id''] \<and> distinct (column_values ''team_id'' tb) \<and>
     set (column_values ''team_id'' tb) =
       set (source_column (db w) ''allplayers'' ''team'') \<union>
       set (source_column (db w) ''gameinfo'' ''visteam'') \<union>
       set (source_column (db w) ''gameinfo'' ''hometeam'') \<union>
       set (source_column (db w) ''teamstats'' ''team'') \<union>
       set (source_column (db w) ''batting'' ''team'') \<union>
       set (source_column (db w) ''pitching'' ''team'') \<union>
       set (source_column (db w) ''fielding'' ''team'')"
proof -
  from assms(1) have "list_all (\<lambda>t. db w t \<noteq> None) required_tables"
    by (simp add: list_all_iff)
  from db_build_dim [OF this, of "''DimTeam''" fromtimestamp] assms(2)
  have "dim_team_query (db w) = Some tb"
    by simp
  then show ?thesis
    by (rule dim_team_query_Some)
qed

lemma ex_sources_present:
  "list_all (\<lambda>t. db (ex_world game_rows) t \<noteq> None) required_tables"
  by (simp add: required_tables_def ex_world_def ex_store_def)

lemma ex_dim_team_query:
  "dim_team_query (ex_store ex_games) =
     Some \<lparr>cols = [''team_id''], rows = [[SText ''AAA''], [SText ''BBB'']]\<rparr>"
  by code_simp

lemma ex_dim_team:
  "db (build_data_warehouse (\<lambda>n. Inl OSError) (ex_world ex_games)) ''DimTeam'' =
     Some \<lparr>cols = [''team_id''], rows = [[SText ''AAA''], [SText ''BBB'']]\<rparr>"
  using db_build_dim [OF ex_sources_present, of "''DimTeam''" "\<lambda>n. Inl OSError" ex_games]
  by (simp add: ex_dim_team_query ex_world_def)

theorem dim_team_is_union_witness:
  "list_all (\<lambda>t. db (ex_world ex_games) t \<noteq> None) required_tables \<and>
   db (build_data_warehouse (\<lambda>n. Inl OSError) (ex_world ex_games)) ''DimTeam'' =
     Some \<lparr>cols = [''team_id''], rows = [[SText ''AAA''], [SText ''BBB'']]\<rparr> \<and>
   distinct (column_values ''team_id'' \<lparr>cols = [''team_id''], rows = [[SText ''AAA''], [SText ''BBB'']]\<rparr>) \<and>
   set (column_values ''team_id'' \<lparr>cols = [''team_id''], rows = [[SText ''AAA''], [SText ''BBB'']]\<rparr>) =
       set (source_column (db (ex_world ex_games)) ''allplayers'' ''team'') \<union>
       set (source_column (db (ex_world ex_games)) ''gameinfo'' ''visteam'') \<union>
       set (source_column (db (ex_world ex_games)) ''gameinfo'' ''hometeam'') \<union>
       set (source_column (db (ex_world ex_games)) ''teamstats'' ''team'') \<union>
       set (source_column (db (ex_world ex_games)) ''batting'' ''team'') \<union>
       set (source_column (db (ex_world ex_games)) ''pitching'' ''team'') \<union>
       set (source_column (db (ex_world ex_games)) ''fielding'' ''team'')"
proof -
  have h: "\<forall>t \<in> set required_tables. db (ex_world ex_games) t \<noteq> None"
    by (simp add: required_tables_def ex_world_def ex_store_def)
  then have "list_all (\<lambda>t. db (ex_world ex_games) t \<noteq> None) required_tables"
    by (simp add: list_all_iff)
  then show ?thesis
    using dim_team_is_union [OF h ex_dim_team] ex_dim_team by simp
qed

subsection \<open>The player dimension\<close>

lemma dim_player_query_Some:
  assumes "dim_player_query st = Some tb" and "st ''allplayers'' = Some ap"
  shows "cols tb = [''player_id'', ''player_name'', ''first_name'', ''last_name'',
                    ''batting_hand'', ''throwing_hand''] \<and>
         rows tb = remdups (map (\<lambda>r.
            [cell ap r ''id'',
             sql_concat (sql_concat (cell ap r ''first'') (SText '' '')) (cell ap r ''last''),
             cell ap r ''first'', cell ap r ''last'', cell ap r ''bat'', cell ap r ''throw'']) (rows ap))"
  using assms
  by (auto simp: dim_player_query_def select_as_def distinct_rows_def from_table_def cell_def
           split: if_splits)

lemma ex_dim_player_query:
  "dim_player_query (ex_store ex_games) =
     Some \<lparr>cols = ex_dim_player_cols,
           rows = [[SText ''p1'', SText ''Al Bo'', SText ''Al'', SText ''Bo'', SText ''R'', SText ''L'']]\<rparr>"
  by code_simp

lemma ex_dim_player:
  "db (build_data_warehouse (\<lambda>n. Inl OSError) (ex_world ex_games)) ''DimPlayer'' =
     Some \<lparr>cols = ex_dim_player_cols,
           rows = [[SText ''p1'', SText ''Al Bo'', SText ''Al'', SText ''Bo'', SText ''R'', SText ''L'']]\<rparr>"
  using db_build_dim [OF ex_sources_present, of "''DimPlayer''" "\<lambda>n. Inl OSError" ex_games]
  by (simp add: ex_dim_player_query ex_world_def)

lemma ex_two_hands_present:
  "list_all (\<lambda>t. db ex_world_two_hands t \<noteq> None) required_tables"
  by (simp add: required_tables_def ex_world_two_hands_def ex_store_def)

lemma ex_dim_player_query_two_hands:
  "dim_player_query (db ex_world_two_hands) =
     Some \<lparr>cols = ex_dim_player_cols,
           rows = [[SText ''p1'', SText ''Al Bo'', SText ''Al'', SText ''Bo'', SText ''R'', SText ''L''],
                   [SText ''p1'', SText ''Al Bo'', SText ''Al'', SText ''Bo'', SText ''B'', SText ''L'']]\<rparr>"
  by code_simp

lemma ex_dim_player_two_hands:
  "db (build_data_warehouse (\<lambda>n. Inl OSError) ex_world_two_hands) ''DimPlayer'' =
     Some \<lparr>cols = ex_dim_player_cols,
           rows = [[SText ''p1'', SText ''Al Bo'', SText ''Al'', SText ''Bo'', SText ''R'', SText ''L''],
                   [SText ''p1'', SText ''Al Bo'', SText ''Al'', SText ''Bo'', SText ''B'', SText ''L'']]\<rparr>"
  using db_build_dim [OF ex_two_hands_present, of "''DimPlayer''" "\<lambda>n. Inl OSError"]
  by (simp add: ex_dim_player_query_two_hands)

lemma one_row_per_id_iff:
  "one_row_per_id ap \<longleftrightarrow>
     (\<forall>r1 \<in> set (rows ap). \<forall>r2 \<in> set (rows ap).
         cell ap r1 ''id'' = cell ap r2 ''id'' \<longrightarrow> player_items ap r1 = player_items ap r2)"
  by (auto simp: one_row_per_id_def list_all_iff)

lemma dim_player_of_build:
  assumes "\<forall>t \<in> set required_tables. db w t \<noteq> None"
    and "db (build_data_warehouse fromtimestamp w) ''DimPlayer'' = Some tb"
    and "db w ''allplayers'' = Some ap"
  shows "distinct (rows tb) \<and>
         length (rows tb) \<le> length (rows ap) \<and>
         (distinct (column_values ''player_id'' tb) \<longleftrightarrow> one_row_per_id ap)"
proof -
  from assms(1) have "list_all (\<lambda>t. db w t \<noteq> None) required_tables"
    by (simp add: list_all_iff)
  from db_build_dim [OF this, of "''DimPlayer''" fromtimestamp] assms(2)
  have q: "dim_player_query (db w) = Some tb"
    by simp
  define f where "f = (\<lambda>r.
            [cell ap r ''id'',
             sql_concat (sql_concat (cell ap r ''first'') (SText '' '')) (cell ap r ''last''),
             cell ap r ''first'', cell ap r ''last'', cell ap r ''bat'', cell ap r ''throw''])"
  define g where "g = (\<lambda>x. eval_expr (zip (cols tb) x) (Col ''player_id''))"
  from dim_player_query_Some [OF q assms(3)]
  have c: "cols tb = [''player_id'', ''player_name'', ''first_name'', ''last_name'',
                    ''batting_hand'', ''throwing_hand'']"
    and r: "rows tb = remdups (map f (rows ap))"
    unfolding f_def by simp_all
  have d: "distinct (rows tb)"
    unfolding r by simp
  have len: "length (rows tb) \<le> length (rows ap)"
    unfolding r using length_remdups_leq [of "map f (rows ap)"] by simp
  have pid: "column_values ''player_id'' tb = map g (rows tb)"
    by (simp add: column_values_def g_def)
  have gf: "g (f x) = cell ap x ''id''" for x
    unfolding g_def c f_def by simp
  have ff: "f x = f y \<longleftrightarrow> player_items ap x = player_items ap y" for x y
    unfolding f_def player_items_def by auto
  have "distinct (map g (rows tb)) \<longleftrightarrow> one_row_per_id ap"
  proof
    assume dm: "distinct (map g (rows tb))"
    then have inj: "inj_on g (set (rows tb))"
      by (simp add: distinct_map)
    show "one_row_per_id ap"
      unfolding one_row_per_id_iff
    proof (intro ballI impI)
      fix r1 r2
      assume r1: "r1 \<in> set (rows ap)" and r2: "r2 \<in> set (rows ap)"
        and e: "cell ap r1 ''id'' = cell ap r2 ''id''"
      from r1 r2 have "f r1 \<in> set (rows tb)" "f r2 \<in> set (rows tb)"
        unfolding r by simp_all
      moreover from e have "g (f r1) = g (f r2)"
        unfolding gf .
      ultimately have "f r1 = f r2"
        using inj by (simp add: inj_on_def)
      then show "player_items ap r1 = player_items ap r2"
        unfolding ff .
    qed
  next
    assume fd: "one_row_per_id ap"
    have "inj_on g (set (rows tb))"
    proof (rule inj_onI)
      fix x y
      assume x: "x \<in> set (rows tb)" and y: "y \<in> set (rows tb)" and e: "g x = g y"
      from x r obtain r1 where r1: "r1 \<in> set (rows ap)" "x = f r1" by auto
      from y r obtain r2 where r2: "r2 \<in> set (rows ap)" "y = f r2" by auto
      from e have "cell ap r1 ''id'' = cell ap r2 ''id''"
        unfolding r1(2) r2(2) gf .
      with fd r1(1) r2(1) have "player_items ap r1 = player_items ap r2"
        unfolding one_row_per_id_iff by blast
      then show "x = y"
        unfolding r1(2) r2(2) ff .
    qed
    with d show "distinct (map g (rows tb))"
      by (simp add: distinct_map)
  qed
  with d len show ?thesis
    unfolding pid by simp
qed

lemma dim_player_same_id_rows:
  assumes "\<forall>t \<in> set required_tables. db w t \<noteq> None"
    and "db (build_data_warehouse fromtimestamp w) ''DimPlayer'' = Some tb"
    and "db w ''allplayers'' = Some ap"
    and r1: "r1 \<in> set (rows ap)" and r2: "r2 \<in> set (rows ap)"
    and e: "cell ap r1 ''id'' = cell ap r2 ''id''"
    and ne: "player_items ap r1 \<noteq> player_items ap r2"
  shows "\<exists>x \<in> set (rows tb). \<exists>y \<in> set (rows tb). x \<noteq> y \<and>
           cell tb x ''player_id'' = cell ap r1 ''id'' \<and> cell tb y ''player_id'' = cell ap r1 ''id''"
proof -
  from assms(1) have "list_all (\<lambda>t. db w t \<noteq> None) required_tables"
    by (simp add: list_all_iff)
  from db_build_dim [OF this, of "''DimPlayer''" fromtimestamp] assms(2)
  have q: "dim_player_query (db w) = Some tb"
    by simp
  define f where "f = (\<lambda>r.
            [cell ap r ''id'',
             sql_concat (sql_concat (cell ap r ''first'') (SText '' '')) (cell ap r ''last''),
             cell ap r ''first'', cell ap r ''last'', cell ap r ''bat'', cell ap r ''throw''])"
  from dim_player_query_Some [OF q assms(3)]
  have c: "cols tb = [''player_id'', ''player_name'', ''first_name'', ''last_name'',
                    ''batting_hand'', ''throwing_hand'']"
    and r: "rows tb = remdups (map f (rows ap))"
    unfolding f_def by simp_all
  have gf: "cell tb (f x) ''player_id'' = cell ap x ''id''" for x
    unfolding cell_def c f_def by simp
  from ne have "f r1 \<noteq> f r2"
    unfolding f_def player_items_def by auto
  moreover from r1 r2 have "f r1 \<in> set (rows tb)" "f r2 \<in> set (rows tb)"
    unfolding r by simp_all
  ultimately show ?thesis
    using gf [of r1] gf [of r2] e by metis
qed

text \<open>
  Claim C7, as the code has it. The rows of the produced DimPlayer are pairwise different
  as whole rows. Its \<open>player_id\<close> values are pairwise different exactly when every player
  identifier of \<^verbatim>\<open>allplayers\<close> has a single combination of first name, last name, batting
  hand and throwing hand; two roster rows with one identifier and different such
  attributes give two different DimPlayer rows with that \<open>player_id\<close>.
\<close>

theorem dim_player_rows_distinct:
  assumes "\<forall>t \<in> set required_tables. db w t \<noteq> None"
    and "db (build_data_warehouse fromtimestamp w) ''DimPlayer'' = Some tb"
    and "db w ''allplayers'' = Some ap"
  shows "distinct (rows tb) \<and>
     (distinct (column_values ''player_id'' tb) \<longleftrightarrow>
        (\<forall>r1 \<in> set (rows ap). \<forall>r2 \<in> set (rows ap).
           cell ap r1 ''id'' = cell ap r2 ''id'' \<longrightarrow> player_items ap r1 = player_items ap r2)) \<and>
     (\<forall>r1 \<in> set (rows ap). \<forall>r2 \<in> set (rows ap).
        cell ap r1 ''id'' = cell ap r2 ''id'' \<and> player_items ap r1 \<noteq> player_items ap r2 \<longrightarrow>
        (\<exists>x \<in> set (rows tb). \<exists>y \<in> set (rows tb). x \<noteq> y \<and>
           cell tb x ''player_id'' = cell ap r1 ''id'' \<and> cell tb y ''player_id'' = cell ap r1 ''id''))"
proof -
  from dim_player_of_build [OF assms]
  have "distinct (rows tb)"
    and "distinct (column_values ''player_id'' tb) \<longleftrightarrow>
        (\<forall>r1 \<in> set (rows ap). \<forall>r2 \<in> set (rows ap).
           cell ap r1 ''id'' = cell ap r2 ''id'' \<longrightarrow> player_items ap r1 = player_items ap r2)"
    unfolding one_row_per_id_iff by simp_all
  moreover have "\<forall>r1 \<in> set (rows ap). \<forall>r2 \<in> set (rows ap).
        cell ap r1 ''id'' = cell ap r2 ''id'' \<and> player_items ap r1 \<noteq> player_items ap r2 \<longrightarrow>
        (\<exists>x \<in> set (rows tb). \<exists>y \<in> set (rows tb). x \<noteq> y \<and>
           cell tb x ''player_id'' = cell ap r1 ''id'' \<and> cell tb y ''player_id'' = cell ap r1 ''id'')"
    using dim_player_same_id_rows [OF assms] by blast
  ultimately show ?thesis
    by blast
qed

lemma ex_two_teams_present:
  "list_all (\<lambda>t. db ex_world_two_teams t \<noteq> None) required_tables"
  by (simp add: required_tables_def ex_world_two_teams_def ex_store_def)

lemma ex_dim_player_query_two_teams:
  "dim_player_query (db ex_world_two_teams) =
     Some \<lparr>cols = ex_dim_player_cols,
           rows = [[SText ''p2'', SText ''Cy Di'', SText ''Cy'', SText ''Di'', SText ''L'', SText ''R''],
                   [SText ''p1'', SText ''Al Bo'', SText ''Al'', SText ''Bo'', SText ''R'', SText ''L'']]\<rparr>"
  by code_simp

lemma ex_dim_player_two_teams:
  "db (build_data_warehouse (\<lambda>n. Inl OSError) ex_world_two_teams) ''DimPlayer'' =
     Some \<lparr>cols = ex_dim_player_cols,
           rows = [[SText ''p2'', SText ''Cy Di'', SText ''Cy'', SText ''Di'', SText ''L'', SText ''R''],
                   [SText ''p1'', SText ''Al Bo'', SText ''Al'', SText ''Bo'', SText ''R'', SText ''L'']]\<rparr>"
  using db_build_dim [OF ex_two_teams_present, of "''DimPlayer''" "\<lambda>n. Inl OSError"]
  by (simp add: ex_dim_player_query_two_teams)

lemma ex_one_row_per_id_two_teams: "one_row_per_id ex_allplayers_two_teams"
  by code_simp

lemma ex_not_one_row_per_id_two_hands: "\<not> one_row_per_id ex_allplayers_two_hands"
  by code_simp

text \<open>
  An instance: a roster of three rows, two of them the same player on two teams. The
  projection drops the team, \<^verbatim>\<open>SELECT DISTINCT\<close> merges the two rows, and the two rows of
  DimPlayer have different identifiers.
\<close>

theorem dim_player_rows_distinct_witness:
  "list_all (\<lambda>t. db ex_world_two_teams t \<noteq> None) required_tables \<and>
   db ex_world_two_teams ''allplayers'' = Some ex_allplayers_two_teams \<and>
   length (rows ex_allplayers_two_teams) = 3 \<and>
   db (build_data_warehouse (\<lambda>n. Inl OSError) ex_world_two_teams) ''DimPlayer'' =
     Some \<lparr>cols = ex_dim_player_cols,
           rows = [[SText ''p2'', SText ''Cy Di'', SText ''Cy'', SText ''Di'', SText ''L'', SText ''R''],
                   [SText ''p1'', SText ''Al Bo'', SText ''Al'', SText ''Bo'', SText ''R'', SText ''L'']]\<rparr> \<and>
   one_row_per_id ex_allplayers_two_teams \<and>
   distinct (column_values ''player_id'' \<lparr>cols = ex_dim_player_cols,
           rows = [[SText ''p2'', SText ''Cy Di'', SText ''Cy'', SText ''Di'', SText ''L'', SText ''R''],
                   [SText ''p1'', SText ''Al Bo'', SText ''Al'', SText ''Bo'', SText ''R'', SText ''L'']]\<rparr>)"
proof -
  have h: "\<forall>t \<in> set required_tables. db ex_world_two_teams t \<noteq> None"
    using ex_two_teams_present by (simp add: list_all_iff)
  have ap: "db ex_world_two_teams ''allplayers'' = Some ex_allplayers_two_teams"
    by (simp add: ex_world_two_teams_def)
  have len: "length (rows ex_allplayers_two_teams) = 3"
    by (simp add: ex_allplayers_two_teams_def)
  from dim_player_rows_distinct [OF h ex_dim_player_two_teams ap] ex_one_row_per_id_two_teams
  have "distinct (column_values ''player_id'' \<lparr>cols = ex_dim_player_cols,
           rows = [[SText ''p2'', SText ''Cy Di'', SText ''Cy'', SText ''Di'', SText ''L'', SText ''R''],
                   [SText ''p1'', SText ''Al Bo'', SText ''Al'', SText ''Bo'', SText ''R'', SText ''L'']]\<rparr>)"
    unfolding one_row_per_id_iff by blast
  with ex_two_teams_present ap len ex_dim_player_two_teams ex_one_row_per_id_two_teams show ?thesis
    by simp
qed

text \<open>
  The claim as stated (\<open>player_id\<close> is unique in DimPlayer) fails for a roster that lists
  one player with two batting hands: \<^verbatim>\<open>SELECT DISTINCT\<close> compares whole rows and keeps
  both.
\<close>

theorem dim_player_id_counterexample:
  "db (build_data_warehouse (\<lambda>n. Inl OSError) ex_world_two_hands) ''DimPlayer'' =
     Some \<lparr>cols = ex_dim_player_cols,
           rows = [[SText ''p1'', SText ''Al Bo'', SText ''Al'', SText ''Bo'', SText ''R'', SText ''L''],
                   [SText ''p1'', SText ''Al Bo'', SText ''Al'', SText ''Bo'', SText ''B'', SText ''L'']]\<rparr> \<and>
   \<not> distinct (column_values ''player_id'' \<lparr>cols = ex_dim_player_cols,
           rows = [[SText ''p1'', SText ''Al Bo'', SText ''Al'', SText ''Bo'', SText ''R'', SText ''L''],
                   [SText ''p1'', SText ''Al Bo'', SText ''Al'', SText ''Bo'', SText ''B'', SText ''L'']]\<rparr>)"
  by (simp add: ex_dim_player_two_hands column_values_def ex_dim_player_cols_def)

subsection \<open>The calendar\<close>

lemma div_step:
  fixes y k :: int
  assumes "0 < k"
  shows "y div k = (y - 1) div k + (if y mod k = 0 then 1 else 0)"
proof -
  define q where "q = (y - 1) div k"
  define r where "r = (y - 1) mod k"
  have y: "y = k * q + r + 1"
    unfolding q_def r_def by simp
  have r: "0 \<le> r" "r < k"
    using assms by (simp_all add: r_def)
  show ?thesis
  proof (cases "r + 1 = k")
    case True
    with y have "y = k * (q + 1)"
      by (simp add: algebra_simps)
    with assms show ?thesis
      unfolding q_def [symmetric] by simp
  next
    case False
    with r have lt: "r + 1 < k" by simp
    from y have y': "y = k * q + (r + 1)" by simp
    from r have r1: "0 \<le> r + 1" by simp
    have "y div k = q"
      using y' r1 lt by (rule int_div_pos_eq)
    moreover have "y mod k = r + 1"
      using y' r1 lt by (rule int_mod_pos_eq)
    ultimately show ?thesis
      unfolding q_def [symmetric] using r by simp
  qed
qed

lemma mod_400_100: "(y::int) mod 400 = 0 \<Longrightarrow> y mod 100 = 0"
  using dvd_trans [of "100::int" 400 y] by (simp add: mod_eq_0_iff_dvd)

lemma mod_100_4: "(y::int) mod 100 = 0 \<Longrightarrow> y mod 4 = 0"
  using dvd_trans [of "4::int" 100 y] by (simp add: mod_eq_0_iff_dvd)

lemma div_step_diff:
  fixes y k :: int
  assumes "0 < k"
  shows "y div k - (y - 1) div k = (if y mod k = 0 then 1 else 0)"
  using div_step [OF assms, of y] by (simp only: add_diff_cancel_left')

lemma year_step_arith:
  fixes y a b c a' b' c' :: int
  assumes "a - a' = (if p4 then 1 else 0)" "b - b' = (if p100 then 1 else 0)"
    "c - c' = (if p400 then 1 else 0)" "p400 \<longrightarrow> p100" "p100 \<longrightarrow> p4"
  shows "y * 365 + a - b + c =
         (y - 1) * 365 + a' - b' + c' + (if p4 \<and> (\<not> p100 \<or> p400) then 366 else 365)"
proof -
  have e: "(y - 1) * 365 = y * 365 - 365"
    by (simp add: algebra_simps)
  from assms show ?thesis
    unfolding e by (cases p4; cases p100; cases p400) simp_all
qed

lemma days_before_year_Suc:
  "days_before_year (y + 1) = days_before_year y + (if is_leap y then 366 else 365)"
proof -
  have "y * 365 + y div 4 - y div 100 + y div 400 =
         (y - 1) * 365 + (y - 1) div 4 - (y - 1) div 100 + (y - 1) div 400 +
         (if y mod 4 = 0 \<and> (\<not> y mod 100 = 0 \<or> y mod 400 = 0) then 366 else 365)"
  proof (rule year_step_arith)
    show "y div 4 - (y - 1) div 4 = (if y mod 4 = 0 then 1 else 0)"
      by (rule div_step_diff) simp
    show "y div 100 - (y - 1) div 100 = (if y mod 100 = 0 then 1 else 0)"
      by (rule div_step_diff) simp
    show "y div 400 - (y - 1) div 400 = (if y mod 400 = 0 then 1 else 0)"
      by (rule div_step_diff) simp
    show "y mod 400 = 0 \<longrightarrow> y mod 100 = 0"
      by (rule impI) (rule mod_400_100)
    show "y mod 100 = 0 \<longrightarrow> y mod 4 = 0"
      by (rule impI) (rule mod_100_4)
  qed
  then show ?thesis
    unfolding days_before_year_def is_leap_def by (simp only: add_diff_cancel_right')
qed

lemma days_before_month_Suc:
  "1 \<le> m \<Longrightarrow> m < 12 \<Longrightarrow>
   days_before_month y (m + 1) = days_before_month y m + days_in_month y m"
proof -
  assume "1 \<le> m" "m < 12"
  then have "m = 1 \<or> m = 2 \<or> m = 3 \<or> m = 4 \<or> m = 5 \<or> m = 6 \<or> m = 7 \<or> m = 8 \<or> m = 9 \<or>
    m = 10 \<or> m = 11"
    by arith
  then show ?thesis
    by (elim disjE) (simp_all add: days_before_month_def days_in_month_def)
qed

lemma toordinal_next_day:
  assumes "valid_date d"
  shows "toordinal (next_day d) = toordinal d + 1"
proof -
  from assms have m: "1 \<le> month d" "month d \<le> 12" and dd: "day d \<le> days_in_month (year d) (month d)"
    by (simp_all add: valid_date_def)
  show ?thesis
  proof (cases "day d < days_in_month (year d) (month d)")
    case True
    then show ?thesis
      by (simp add: next_day_def toordinal_def ymd2ord_def)
  next
    case False
    with dd have last: "day d = days_in_month (year d) (month d)"
      by simp
    show ?thesis
    proof (cases "month d < 12")
      case True
      with False m last days_before_month_Suc [of "month d" "year d"] show ?thesis
        by (simp add: next_day_def toordinal_def ymd2ord_def)
    next
      case False
      with m have m12: "month d = 12"
        by simp
      with last have "day d = 31"
        by (simp add: days_in_month_def)
      with m12 \<open>\<not> day d < days_in_month (year d) (month d)\<close> show ?thesis
        by (simp add: next_day_def toordinal_def ymd2ord_def days_before_year_Suc
            days_before_month_def)
    qed
  qed
qed

lemma toordinal_max: "toordinal \<lparr>year = 9999, month = 12, day = 31\<rparr> = 3652059"
  by (simp add: toordinal_def ymd2ord_def days_before_year_def days_before_month_def is_leap_def)

lemma valid_next_day:
  assumes "valid_date d" and "toordinal d + 1 \<le> 3652059"
  shows "valid_date (next_day d)"
proof -
  from assms(1) have v: "1 \<le> year d" "year d \<le> 9999" "1 \<le> month d" "month d \<le> 12"
    "1 \<le> day d" "day d \<le> days_in_month (year d) (month d)"
    by (simp_all add: valid_date_def)
  have dim1: "1 \<le> days_in_month y m" for y m
    by (simp add: days_in_month_def)
  show ?thesis
  proof (cases "day d < days_in_month (year d) (month d)")
    case True
    with v show ?thesis
      by (simp add: next_day_def valid_date_def)
  next
    case False
    note last = this
    show ?thesis
    proof (cases "month d < 12")
      case True
      with last v dim1 show ?thesis
        by (simp add: next_day_def valid_date_def)
    next
      case False
      with v have m12: "month d = 12" by simp
      with last v have d31: "day d = 31" by (simp add: days_in_month_def)
      have "year d \<noteq> 9999"
      proof
        assume "year d = 9999"
        with m12 d31 have "d = \<lparr>year = 9999, month = 12, day = 31\<rparr>"
          by (cases d) simp
        with toordinal_max assms(2) show False by simp
      qed
      with v last False show ?thesis
        by (simp add: next_day_def valid_date_def days_in_month_def)
    qed
  qed
qed



lemma days_before_year_mono: "a \<le> b \<Longrightarrow> days_before_year a \<le> days_before_year b"
proof (induction b rule: int_ge_induct)
  case base
  show ?case by simp
next
  case (step i)
  then show ?case
    by (simp add: days_before_year_Suc)
qed

lemma days_in_month_pos: "0 < days_in_month y m"
  by (simp add: days_in_month_def)

lemma days_before_month_mono:
  assumes "1 \<le> m" and "m \<le> m'" and "m' \<le> 12"
  shows "days_before_month y m \<le> days_before_month y m'"
  using assms(2,1,3)
proof (induction m' rule: int_ge_induct)
  case base
  show ?case by simp
next
  case (step i)
  then have "days_before_month y (i + 1) = days_before_month y i + days_in_month y i"
    by (intro days_before_month_Suc) simp_all
  with step days_in_month_pos [of y i] show ?case
    by simp
qed

lemma days_before_month_12: "days_before_month y 12 + 31 = (if is_leap y then 366 else 365)"
  by (simp add: days_before_month_def)

lemma toordinal_bounds:
  assumes "valid_date d"
  shows "days_before_year (year d) < toordinal d"
    and "toordinal d \<le> days_before_year (year d + 1)"
proof -
  from assms have v: "1 \<le> month d" "month d \<le> 12" "1 \<le> day d"
    "day d \<le> days_in_month (year d) (month d)"
    by (simp_all add: valid_date_def)
  have "0 \<le> days_before_month (year d) (month d)"
    by (simp add: days_before_month_def)
  with v show "days_before_year (year d) < toordinal d"
    by (simp add: toordinal_def ymd2ord_def)
  have "days_before_month (year d) (month d) + day d \<le> days_before_month (year d) 12 + 31"
  proof (cases "month d = 12")
    case True
    with v show ?thesis by (simp add: days_in_month_def)
  next
    case False
    with v have lt: "month d < 12" by simp
    have "days_before_month (year d) (month d) + day d
          \<le> days_before_month (year d) (month d) + days_in_month (year d) (month d)"
      using v by simp
    also have "\<dots> = days_before_month (year d) (month d + 1)"
      using v lt by (simp add: days_before_month_Suc)
    also have "\<dots> \<le> days_before_month (year d) 12"
      using v lt by (intro days_before_month_mono) simp_all
    finally show ?thesis by simp
  qed
  then show "toordinal d \<le> days_before_year (year d + 1)"
    unfolding days_before_year_Suc days_before_month_12 [symmetric]
    by (simp add: toordinal_def ymd2ord_def)
qed

lemma toordinal_less:
  assumes "valid_date a" and "valid_date b" and "\<not> date_le b a"
  shows "toordinal a < toordinal b"
proof -
  from assms(3) consider "year a < year b" | "year a = year b" "month a < month b"
    | "year a = year b" "month a = month b" "day a < day b"
    unfolding date_le_def by linarith
  then show ?thesis
  proof cases
    case 1
    then have "days_before_year (year a + 1) \<le> days_before_year (year b)"
      by (intro days_before_year_mono) simp
    with toordinal_bounds(2) [OF assms(1)] toordinal_bounds(1) [OF assms(2)] show ?thesis
      by linarith
  next
    case 2
    from assms(1,2) have v: "1 \<le> month a" "month b \<le> 12" "day a \<le> days_in_month (year a) (month a)"
      "1 \<le> day b"
      by (simp_all add: valid_date_def)
    from v 2 have "days_before_month (year a) (month a + 1) \<le> days_before_month (year a) (month b)"
      by (intro days_before_month_mono) simp_all
    moreover from v 2 have "days_before_month (year a) (month a + 1) =
        days_before_month (year a) (month a) + days_in_month (year a) (month a)"
      by (intro days_before_month_Suc) simp_all
    ultimately show ?thesis
      using v 2 by (simp add: toordinal_def ymd2ord_def)
  next
    case 3
    then show ?thesis
      by (simp add: toordinal_def ymd2ord_def)
  qed
qed

lemma date_le_iff:
  assumes "valid_date a" and "valid_date b"
  shows "date_le a b \<longleftrightarrow> toordinal a \<le> toordinal b"
proof
  assume le: "date_le a b"
  show "toordinal a \<le> toordinal b"
  proof (cases "date_le b a")
    case True
    with le have "year a = year b \<and> month a = month b \<and> day a = day b"
      unfolding date_le_def by linarith
    then show ?thesis
      by (simp add: toordinal_def)
  next
    case False
    from toordinal_less [OF assms False] show ?thesis by simp
  qed
next
  assume le: "toordinal a \<le> toordinal b"
  show "date_le a b"
  proof (rule ccontr)
    assume "\<not> date_le a b"
    from toordinal_less [OF assms(2,1) this] le show False by simp
  qed
qed


lemma of_char_digit_char: "k < 10 \<Longrightarrow> (of_char (digit_char k) :: nat) = 48 + k"
  by (simp add: digit_char_def)

lemma is_digit_digit_char: "k < 10 \<Longrightarrow> is_digit (digit_char k)"
  by (simp add: is_digit_def of_char_digit_char)

lemma digit_val_digit_char: "k < 10 \<Longrightarrow> digit_val (digit_char k) = int k"
  by (simp add: digit_val_def of_char_digit_char)

lemma digit_char_not_dash: "k < 10 \<Longrightarrow> digit_char k \<noteq> CHR ''-''"
proof
  assume "k < 10" and "digit_char k = CHR ''-''"
  then have "(of_char (digit_char k) :: nat) = of_char CHR ''-''"
    by simp
  with \<open>k < 10\<close> show False
    by (simp add: of_char_digit_char)
qed

lemma char_of_eq_lit: "char_of (n::nat) = c \<longleftrightarrow> n mod 256 = of_char c"
proof
  assume "char_of n = c"
  then have "(of_char (char_of n) :: nat) = of_char c"
    by simp
  then show "n mod 256 = of_char c"
    by simp
next
  assume "n mod 256 = of_char c"
  then have "char_of (n mod 256) = char_of (of_char c :: nat)"
    by simp
  then show "char_of n = c"
    by simp
qed

lemma nat_mod_10: "nat (n mod 10) < 10" for n :: int
  by simp

lemma parse_month_fmt2:
  assumes "1 \<le> m" and "m \<le> 12"
  shows "parse_month (fmt2 m) = Some m"
proof -
  from assms have "m = 1 \<or> m = 2 \<or> m = 3 \<or> m = 4 \<or> m = 5 \<or> m = 6 \<or> m = 7 \<or> m = 8 \<or> m = 9 \<or>
    m = 10 \<or> m = 11 \<or> m = 12"
    by arith
  then show ?thesis
    by (elim disjE) (simp_all add: fmt2_def parse_month_def digit_char_def is_digit_def digit_val_def char_of_eq_lit)
qed

lemma parse_day_fmt2:
  assumes "1 \<le> n" and "n \<le> 31"
  shows "parse_day (fmt2 n) = Some n"
proof -
  from assms have "n = 1 \<or> n = 2 \<or> n = 3 \<or> n = 4 \<or> n = 5 \<or> n = 6 \<or> n = 7 \<or> n = 8 \<or> n = 9 \<or>
    n = 10 \<or> n = 11 \<or> n = 12 \<or> n = 13 \<or> n = 14 \<or> n = 15 \<or> n = 16 \<or> n = 17 \<or> n = 18 \<or>
    n = 19 \<or> n = 20 \<or> n = 21 \<or> n = 22 \<or> n = 23 \<or> n = 24 \<or> n = 25 \<or> n = 26 \<or> n = 27 \<or>
    n = 28 \<or> n = 29 \<or> n = 30 \<or> n = 31"
    by arith
  then show ?thesis
    by (elim disjE) (simp_all add: fmt2_def parse_day_def digit_char_def is_digit_def digit_val_def char_of_eq_lit)
qed

lemma decimal_digits:
  fixes y :: int
  assumes "0 \<le> y" and "y < 10000"
  shows "1000 * (y div 1000 mod 10) + 100 * (y div 100 mod 10) + 10 * (y div 10 mod 10) + y mod 10 = y"
proof -
  define a where "a = y div 10"
  define b where "b = a div 10"
  define c where "c = b div 10"
  have y: "y = 10 * a + y mod 10"
    unfolding a_def by simp
  have a: "a = 10 * b + a mod 10"
    unfolding b_def by simp
  have b: "b = 10 * c + b mod 10"
    unfolding c_def by simp
  have d100: "y div 100 = b"
    unfolding b_def a_def using zdiv_zmult2_eq [of 10 y 10] by simp
  have d1000: "y div 1000 = c"
    unfolding c_def d100 [symmetric] using zdiv_zmult2_eq [of 10 y 100] by simp
  have "c < 10" "0 \<le> c"
    unfolding d1000 [symmetric] using assms by simp_all
  then have cm: "c mod 10 = c"
    by simp
  define r0 where "r0 = y mod 10"
  define r1 where "r1 = a mod 10"
  define r2 where "r2 = b mod 10"
  from y a b have "y = 1000 * c + 100 * r2 + 10 * r1 + r0"
    unfolding r0_def [symmetric] r1_def [symmetric] r2_def [symmetric] by linarith
  then show ?thesis
    unfolding d1000 d100 cm a_def [symmetric] r0_def r1_def r2_def by simp
qed

lemma strptime_strftime:
  assumes "valid_date d"
  shows "strptime (strftime d) = Inr d"
proof -
  from assms have v: "1 \<le> year d" "year d \<le> 9999" "1 \<le> month d" "month d \<le> 12"
    "1 \<le> day d" "day d \<le> days_in_month (year d) (month d)"
    by (simp_all add: valid_date_def)
  have "days_in_month (year d) (month d) \<le> 31"
    by (simp add: days_in_month_def)
  with v have d31: "day d \<le> 31" by simp
  define y1 where "y1 = nat (year d div 1000 mod 10)"
  define y2 where "y2 = nat (year d div 100 mod 10)"
  define y3 where "y3 = nat (year d div 10 mod 10)"
  define y4 where "y4 = nat (year d mod 10)"
  define m1 where "m1 = nat (month d div 10 mod 10)"
  define m2 where "m2 = nat (month d mod 10)"
  define d1 where "d1 = nat (day d div 10 mod 10)"
  define d2 where "d2 = nat (day d mod 10)"
  have lt: "y1 < 10" "y2 < 10" "y3 < 10" "y4 < 10" "m1 < 10" "m2 < 10" "d1 < 10" "d2 < 10"
    unfolding y1_def y2_def y3_def y4_def m1_def m2_def d1_def d2_def by simp_all
  have s: "strftime d = digit_char y1 # digit_char y2 # digit_char y3 # digit_char y4 # CHR ''-'' #
      [digit_char m1, digit_char m2, CHR ''-'', digit_char d1, digit_char d2]"
    by (simp add: strftime_def fmt4_def fmt2_def y1_def y2_def y3_def y4_def m1_def m2_def
        d1_def d2_def)
  have tw: "takeWhile (\<lambda>x. x \<noteq> CHR ''-'') [digit_char m1, digit_char m2, CHR ''-'', digit_char d1, digit_char d2]
      = fmt2 (month d)"
    using lt by (simp add: digit_char_not_dash fmt2_def m1_def m2_def)
  have dw: "dropWhile (\<lambda>x. x \<noteq> CHR ''-'') [digit_char m1, digit_char m2, CHR ''-'', digit_char d1, digit_char d2]
      = CHR ''-'' # fmt2 (day d)"
    using lt by (simp add: digit_char_not_dash fmt2_def d1_def d2_def)
  have i1: "int y1 = year d div 1000 mod 10" "int y2 = year d div 100 mod 10"
    "int y3 = year d div 10 mod 10" "int y4 = year d mod 10"
    unfolding y1_def y2_def y3_def y4_def by simp_all
  have "1000 * (year d div 1000 mod 10) + 100 * (year d div 100 mod 10)
            + 10 * (year d div 10 mod 10) + year d mod 10 = year d"
    using v by (intro decimal_digits) simp_all
  then have yv: "1000 * digit_val (digit_char y1) + 100 * digit_val (digit_char y2)
            + 10 * digit_val (digit_char y3) + digit_val (digit_char y4) = year d"
    unfolding digit_val_digit_char [OF lt(1)] digit_val_digit_char [OF lt(2)]
      digit_val_digit_char [OF lt(3)] digit_val_digit_char [OF lt(4)] i1 .
  have rec: "\<lparr>year = year d, month = month d, day = day d\<rparr> = d"
    by (cases d) simp
  show ?thesis
    unfolding strptime_def s
    using lt assms
    by (simp add: rec is_digit_digit_char tw dw parse_month_fmt2 [OF v(3,4)] parse_day_fmt2 [OF v(5) d31]
        yv Let_def del: takeWhile.simps dropWhile.simps)
qed

lemma strptime_valid: "strptime s = Inr d \<Longrightarrow> valid_date d"
  unfolding strptime_def
  by (auto simp: Let_def split: list.splits if_splits option.splits)

subsection \<open>The date dimension reads only the game dates\<close>

lemma db_exec_insert_same:
  "db (exec_stmt (insert_into t r) w) t =
     (case db w t of None \<Rightarrow> None
      | Some tb \<Rightarrow>
          if length r \<noteq> length (cols tb) \<or> first_col r \<in> set (map first_col (rows tb))
          then Some tb else Some (tb\<lparr>rows := rows tb @ [r]\<rparr>))"
  by (simp add: exec_stmt_def insert_into_def say_def split: option.splits)

lemma date_loop_local:
  "db w ''DimDate'' = db w' ''DimDate'' \<Longrightarrow>
   fst (date_loop c e w) = fst (date_loop c e w') \<and>
   db (snd (date_loop c e w)) ''DimDate'' = db (snd (date_loop c e w')) ''DimDate''"
proof (induction c e w arbitrary: w' rule: date_loop.induct)
  case (1 c e w)
  show ?case
  proof (cases "date_le c e")
    case False
    with 1(2) show ?thesis
      by (simp add: date_loop.simps)
  next
    case True
    have ins: "db (exec_stmt (insert_into ''DimDate'' (dim_date_row c)) w) ''DimDate'' =
               db (exec_stmt (insert_into ''DimDate'' (dim_date_row c)) w') ''DimDate''"
      using 1(2) by (simp add: db_exec_insert_same)
    show ?thesis
    proof (cases "add_one_day c")
      case (Inl err)
      with True ins show ?thesis
        by (simp add: date_loop.simps [of c e])
    next
      case (Inr nxt)
      from 1(1) [OF True Inr ins] True Inr show ?thesis
        by (simp add: date_loop.simps [of c e])
    qed
  qed
qed

lemma select_min_local:
  "st ''gameinfo'' = st' ''gameinfo'' \<Longrightarrow>
   select_min ''date'' ''gameinfo'' st = select_min ''date'' ''gameinfo'' st'"
  by (simp add: select_min_def)

lemma select_max_local:
  "st ''gameinfo'' = st' ''gameinfo'' \<Longrightarrow>
   select_max ''date'' ''gameinfo'' st = select_max ''date'' ''gameinfo'' st'"
  by (simp add: select_max_def)

lemma db_exec_create_table_same:
  "db (exec_stmt (create_table t cs) w) t =
     (case db w t of None \<Rightarrow> Some \<lparr>cols = cs, rows = []\<rparr> | Some tb \<Rightarrow> Some tb)"
  by (simp add: exec_stmt_def create_table_def say_def split: option.splits)

lemma create_dim_date_bounds:
  assumes "select_min ''date'' ''gameinfo'' (db w0) = Some min_date"
    and "select_max ''date'' ''gameinfo'' (db w0) = Some max_date"
  shows "create_dim_date fromtimestamp w0 =
          (case convert_bounds fromtimestamp min_date max_date of
             Inl (e, shown) \<Rightarrow>
               (if e = ValueError
                then (None, say (WarnUnsupportedDateFormat shown) (say (Creating ''DimDate'') w0))
                else (Some e, say (Creating ''DimDate'') w0))
           | Inr (min_date', max_date') \<Rightarrow>
               (let w3 = exec_stmt (create_table ''DimDate'' dim_date_columns)
                           (say (Creating ''DimDate'') w0) in
                case py_strptime min_date' of
                  Inl e \<Rightarrow> (Some e, w3)
                | Inr current_date \<Rightarrow>
                    (case py_strptime max_date' of
                       Inl e \<Rightarrow> (Some e, w3)
                     | Inr end_date \<Rightarrow>
                         (case date_loop current_date end_date w3 of
                            (Some e, w4) \<Rightarrow> (Some e, w4)
                          | (None, w4) \<Rightarrow> (None, say CreatedAllDimensionTables w4)))))"
  using assms by (simp add: create_dim_date_def exec_fetch_def)

lemma create_dim_date_no_bounds:
  assumes "select_min ''date'' ''gameinfo'' (db w0) = None \<or>
           select_max ''date'' ''gameinfo'' (db w0) = None"
  shows "fst (create_dim_date fromtimestamp w0) = None \<and>
         db (snd (create_dim_date fromtimestamp w0)) = db w0"
  using assms
  by (auto simp: create_dim_date_def exec_fetch_def split: option.splits)

lemma create_dim_date_local:
  assumes g: "db w ''gameinfo'' = db w' ''gameinfo''"
    and d: "db w ''DimDate'' = db w' ''DimDate''"
  shows "fst (create_dim_date fromtimestamp w) = fst (create_dim_date fromtimestamp w') \<and>
         db (snd (create_dim_date fromtimestamp w)) ''DimDate'' =
         db (snd (create_dim_date fromtimestamp w')) ''DimDate''"
proof (cases "select_min ''date'' ''gameinfo'' (db w) = None \<or>
              select_max ''date'' ''gameinfo'' (db w) = None")
  case True
  then have "select_min ''date'' ''gameinfo'' (db w') = None \<or>
             select_max ''date'' ''gameinfo'' (db w') = None"
    using select_min_local [of "db w" "db w'", OF g] select_max_local [of "db w" "db w'", OF g] by simp
  from create_dim_date_no_bounds [OF True] create_dim_date_no_bounds [OF this] d show ?thesis
    by simp
next
  case False
  then obtain mn mx where mn: "select_min ''date'' ''gameinfo'' (db w) = Some mn"
    and mx: "select_max ''date'' ''gameinfo'' (db w) = Some mx"
    by auto
  from mn mx have mn': "select_min ''date'' ''gameinfo'' (db w') = Some mn"
    and mx': "select_max ''date'' ''gameinfo'' (db w') = Some mx"
    using select_min_local [of "db w" "db w'", OF g] select_max_local [of "db w" "db w'", OF g] by simp_all
  define v where "v = exec_stmt (create_table ''DimDate'' dim_date_columns) (say (Creating ''DimDate'') w)"
  define v' where "v' = exec_stmt (create_table ''DimDate'' dim_date_columns) (say (Creating ''DimDate'') w')"
  have vv: "db v ''DimDate'' = db v' ''DimDate''"
    unfolding v_def v'_def using d by (simp add: db_exec_create_table_same)
  note loop = date_loop_local [OF vv]
  show ?thesis
  proof (cases "convert_bounds fromtimestamp mn mx")
    case (Inl a)
    then show ?thesis
      unfolding create_dim_date_bounds [OF mn mx] create_dim_date_bounds [OF mn' mx']
      using d by (cases a) simp
  next
    case (Inr b)
    obtain a1 a2 where b: "b = (a1, a2)" by (cases b)
    show ?thesis
    proof (cases "py_strptime a1")
      case (Inl e1)
      with Inr b vv show ?thesis
        unfolding create_dim_date_bounds [OF mn mx] create_dim_date_bounds [OF mn' mx']
        by (simp add: v_def v'_def)
    next
      case c: (Inr cur)
      show ?thesis
      proof (cases "py_strptime a2")
        case (Inl e2)
        with Inr b c vv show ?thesis
          unfolding create_dim_date_bounds [OF mn mx] create_dim_date_bounds [OF mn' mx']
          by (simp add: v_def v'_def)
      next
        case e: (Inr en)
        obtain r1 x1 where l1: "date_loop cur en v = (r1, x1)" by (cases "date_loop cur en v")
        obtain r2 x2 where l2: "date_loop cur en v' = (r2, x2)" by (cases "date_loop cur en v'")
        from loop [of cur en] l1 l2 have "r1 = r2" "db x1 ''DimDate'' = db x2 ''DimDate''"
          by simp_all
        with Inr b c e l1 l2 show ?thesis
          unfolding create_dim_date_bounds [OF mn mx] create_dim_date_bounds [OF mn' mx']
          by (cases r2) (simp_all add: v_def [symmetric] v'_def [symmetric])
      qed
    qed
  qed
qed

subsection \<open>Building twice\<close>

lemma create_dimension_tables_local:
  assumes "same_sources (db w) (db w')"
  shows "fst (create_dimension_tables fromtimestamp w) = fst (create_dimension_tables fromtimestamp w') \<and>
         db (snd (create_dimension_tables fromtimestamp w)) ''DimDate'' =
         db (snd (create_dimension_tables fromtimestamp w')) ''DimDate''"
  unfolding create_dimension_tables_def
  by (rule create_dim_date_local)
     (simp_all add: db_create_dim_player_team_game same_sources_D(1) [OF assms])

lemma db_create_dimension_tables_dims:
  assumes "same_sources (db w) (db w')" and "n = ''DimPlayer'' \<or> n = ''DimTeam'' \<or> n = ''DimGame''"
  shows "db (snd (create_dimension_tables fromtimestamp w)) n =
         db (snd (create_dimension_tables fromtimestamp w')) n"
proof -
  from assms(2) have ne: "n \<noteq> ''DimDate''" by auto
  from assms(2) show ?thesis
    unfolding db_create_dimension_tables_other [OF ne]
    using dim_player_query_cong [OF assms(1)] dim_team_query_cong [OF assms(1)]
      dim_game_query_cong [OF assms(1)]
    by auto
qed

lemma db_create_dimension_tables_rest:
  assumes "n \<noteq> ''DimDate''" "n \<noteq> ''DimPlayer''" "n \<noteq> ''DimTeam''" "n \<noteq> ''DimGame''"
  shows "db (snd (create_dimension_tables fromtimestamp w)) n = db w n"
  unfolding db_create_dimension_tables_other [OF assms(1)] using assms by simp

lemma same_sources_after_dims:
  "same_sources (db (snd (create_dimension_tables fromtimestamp w))) (db w)"
  by (simp add: same_sources_def required_tables_def db_create_dimension_tables_rest)

lemma same_sources_trans:
  "same_sources a b \<Longrightarrow> same_sources b c \<Longrightarrow> same_sources a c"
  by (simp add: same_sources_def list_all_iff)

lemma same_sources_sym: "same_sources a b \<Longrightarrow> same_sources b a"
  by (simp add: same_sources_def list_all_iff)

lemma same_sources_missing:
  "same_sources a b \<Longrightarrow>
   filter (\<lambda>t. a t = None) required_tables = filter (\<lambda>t. b t = None) required_tables"
  by (rule filter_cong) (simp_all add: same_sources_def list_all_iff)

lemma same_sources_facts:
  "same_sources (st(''FactBatting'' := x, ''FactPitching'' := y, ''FactGameOutcomes'' := z)) st"
  by (simp add: same_sources_def required_tables_def)

lemma same_sources_after_build:
  "same_sources (db (build_data_warehouse fromtimestamp w)) (db w)"
proof -
  define w1 where "w1 = say Connected (say StartingBuild w)"
  have w1: "db w1 = db w" by (simp add: w1_def)
  have d: "same_sources (db (snd (create_dimension_tables fromtimestamp w1))) (db w)"
    using same_sources_after_dims [of fromtimestamp w1] w1 by simp
  show ?thesis
    unfolding db_build_data_warehouse w1_def [symmetric]
    using d same_sources_trans [OF same_sources_facts d]
    by (simp add: db_create_fact_tables split: option.splits)
qed

lemma upd3_other:
  "n \<noteq> a \<Longrightarrow> n \<noteq> b \<Longrightarrow> n \<noteq> c \<Longrightarrow> (f(a := x, b := y, c := z)) n = f n"
  by simp

lemma upd3_same:
  "n = a \<or> n = b \<or> n = c \<Longrightarrow> (f(a := x, b := y, c := z)) n = (g(a := x, b := y, c := z)) n"
  by auto

lemma build_twice:
  "db (build_data_warehouse fromtimestamp (build_data_warehouse fromtimestamp w)) =
   db (build_data_warehouse fromtimestamp w)"
proof (cases "filter (\<lambda>t. db w t = None) required_tables = []")
  case False
  then have "db (build_data_warehouse fromtimestamp w) = db w"
    by (simp add: db_build_data_warehouse)
  with False show ?thesis
    by (simp add: db_build_data_warehouse [of fromtimestamp "build_data_warehouse fromtimestamp w"])
next
  case True
  define W where "W = build_data_warehouse fromtimestamp w"
  define w1 where "w1 = say Connected (say StartingBuild w)"
  define w1' where "w1' = say Connected (say StartingBuild W)"
  define w2 where "w2 = snd (create_dimension_tables fromtimestamp w1)"
  define w2' where "w2' = snd (create_dimension_tables fromtimestamp w1')"
  have sW: "same_sources (db W) (db w)"
    unfolding W_def by (rule same_sources_after_build)
  have s1: "same_sources (db w1') (db w1)"
    using sW by (simp add: w1_def w1'_def)
  from same_sources_missing [OF sW] True
  have True': "filter (\<lambda>t. db W t = None) required_tables = []"
    by simp
  have e: "fst (create_dimension_tables fromtimestamp w1') = fst (create_dimension_tables fromtimestamp w1)"
    and dd: "db w2' ''DimDate'' = db w2 ''DimDate''"
    using create_dimension_tables_local [OF s1, of fromtimestamp] by (simp_all add: w2_def w2'_def)
  have dims: "db w2' n = db w2 n" if "n = ''DimPlayer'' \<or> n = ''DimTeam'' \<or> n = ''DimGame''" for n
    unfolding w2_def w2'_def using s1 that by (rule db_create_dimension_tables_dims)
  have rest: "db w2 n = db w n" "db w2' n = db W n"
    if "n \<noteq> ''DimDate''" "n \<noteq> ''DimPlayer''" "n \<noteq> ''DimTeam''" "n \<noteq> ''DimGame''" for n
    using that by (simp_all add: w2_def w2'_def db_create_dimension_tables_rest w1_def w1'_def)
  have s2: "same_sources (db w2) (db w)"
    using same_sources_after_dims [of fromtimestamp w1] by (simp add: w2_def w1_def)
  have "same_sources (db w2') (db W)"
    using same_sources_after_dims [of fromtimestamp w1'] by (simp add: w2'_def w1'_def)
  then have "same_sources (db w2') (db w)"
    using sW by (rule same_sources_trans)
  then have s2': "same_sources (db w2') (db w2)"
    using same_sources_sym [OF s2] by (rule same_sources_trans)
  show ?thesis
  proof (cases "fst (create_dimension_tables fromtimestamp w1)")
    case (Some err)
    have W: "db W = db w2"
      unfolding W_def db_build_data_warehouse w1_def [symmetric] w2_def using True Some by simp
    have W': "db (build_data_warehouse fromtimestamp W) = db w2'"
      unfolding db_build_data_warehouse [of fromtimestamp W] w1'_def [symmetric] w2'_def
      using True' Some e by simp
    have "db w2' n = db w2 n" for n
    proof (cases "n = ''DimDate'' \<or> n = ''DimPlayer'' \<or> n = ''DimTeam'' \<or> n = ''DimGame''")
      case True
      with dd dims show ?thesis by blast
    next
      case False
      then have nd: "n \<noteq> ''DimDate''" "n \<noteq> ''DimPlayer''" "n \<noteq> ''DimTeam''" "n \<noteq> ''DimGame''"
        by blast+
      from rest(2) [OF nd] W show ?thesis by simp
    qed
    then show ?thesis
      unfolding W_def [symmetric] W' W by (rule ext)
  next
    case None
    have W: "db W = (db w2)(''FactBatting'' := fact_batting_query (db w2),
            ''FactPitching'' := fact_pitching_query (db w2),
            ''FactGameOutcomes'' := fact_game_outcomes_query (db w2))"
      unfolding W_def db_build_data_warehouse w1_def [symmetric] w2_def using True None
      by (simp add: db_create_fact_tables)
    have W': "db (build_data_warehouse fromtimestamp W) =
           (db w2')(''FactBatting'' := fact_batting_query (db w2'),
            ''FactPitching'' := fact_pitching_query (db w2'),
            ''FactGameOutcomes'' := fact_game_outcomes_query (db w2'))"
      unfolding db_build_data_warehouse [of fromtimestamp W] w1'_def [symmetric] w2'_def
      using True' None e by (simp add: db_create_fact_tables)
    have q: "fact_batting_query (db w2') = fact_batting_query (db w2)"
      "fact_pitching_query (db w2') = fact_pitching_query (db w2)"
      "fact_game_outcomes_query (db w2') = fact_game_outcomes_query (db w2)"
      using fact_batting_query_cong [OF s2'] fact_pitching_query_cong [OF s2']
        fact_game_outcomes_query_cong [OF s2'] by blast+
    have "db (build_data_warehouse fromtimestamp W) n = db W n" for n
    proof (cases "n = ''FactBatting'' \<or> n = ''FactPitching'' \<or> n = ''FactGameOutcomes''")
      case True
      then show ?thesis
        unfolding W W' q by (rule upd3_same)
    next
      case nf: False
      then have nf': "n \<noteq> ''FactBatting''" "n \<noteq> ''FactPitching''" "n \<noteq> ''FactGameOutcomes''"
        by blast+
      have "db w2' n = db w2 n"
      proof (cases "n = ''DimDate'' \<or> n = ''DimPlayer'' \<or> n = ''DimTeam'' \<or> n = ''DimGame''")
        case True
        with dd dims show ?thesis by blast
      next
        case False
        then have nd: "n \<noteq> ''DimDate''" "n \<noteq> ''DimPlayer''" "n \<noteq> ''DimTeam''" "n \<noteq> ''DimGame''"
          by blast+
        from rest(2) [OF nd] have "db w2' n = db W n" .
        also have "db W n = db w2 n"
          unfolding W using nf' by (rule upd3_other)
        finally show ?thesis .
      qed
      then show ?thesis
        unfolding W W' upd3_other [OF nf'] .
    qed
    then show ?thesis
      unfolding W_def [symmetric] by (rule ext)
  qed
qed

subsection \<open>The rows of the date dimension\<close>

lemma days_before_year_10000: "days_before_year 10000 = 3652059"
  by (simp add: days_before_year_def)

lemma toordinal_le_max:
  assumes "valid_date d"
  shows "toordinal d \<le> 3652059"
proof -
  from assms have "year d + 1 \<le> 10000"
    by (simp add: valid_date_def)
  then have "days_before_year (year d + 1) \<le> days_before_year 10000"
    by (rule days_before_year_mono)
  with toordinal_bounds(2) [OF assms] show ?thesis
    unfolding days_before_year_10000 by simp
qed

lemma length_date_range [simp]: "length (date_range c k) = k"
  by (induction k arbitrary: c) simp_all


lemma strftime_inj:
  assumes "valid_date a" and "valid_date b" and "strftime a = strftime b"
  shows "a = b"
proof -
  from assms(3) have "strptime (strftime a) = strptime (strftime b)"
    by (rule arg_cong)
  then have "(Inr a :: py_error + date) = Inr b"
    unfolding strptime_strftime [OF assms(1)] strptime_strftime [OF assms(2)] .
  then show ?thesis
    by (simp only: sum.inject)
qed

lemma first_col_dim_date_row: "first_col (dim_date_row d) = SText (strftime d)"
  by (simp add: first_col_def dim_date_row_def)

lemma length_dim_date_row: "length (dim_date_row d) = 8"
  by (simp add: dim_date_row_def)

lemma date_loop_rows:
  assumes "valid_date c" and "valid_date e"
    and "db w ''DimDate'' = Some tb" and "length (cols tb) = 8"
    and "\<forall>r \<in> set (rows tb). \<exists>d. valid_date d \<and> toordinal d < toordinal c \<and>
           first_col r = SText (strftime d)"
  shows "db (snd (date_loop c e w)) ''DimDate'' =
           Some (tb\<lparr>rows := rows tb @ map dim_date_row (days_from_to c e)\<rparr>) \<and>
         fst (date_loop c e w) =
           (if toordinal c \<le> toordinal e \<and> toordinal e = 3652059 then Some OverflowError else None)"
  using assms
proof (induction c e w arbitrary: tb rule: date_loop.induct)
  case (1 c e w)
  note v = \<open>valid_date c\<close> \<open>valid_date e\<close>
  show ?case
  proof (cases "date_le c e")
    case False
    with v have "\<not> toordinal c \<le> toordinal e"
      by (simp add: date_le_iff)
    with False 1(4) show ?thesis
      by (simp add: date_loop.simps [of c e w] days_from_to_def)
  next
    case True
    with v have le: "toordinal c \<le> toordinal e"
      by (simp add: date_le_iff)
    define w' where "w' = exec_stmt (insert_into ''DimDate'' (dim_date_row c)) w"
    have fresh: "first_col (dim_date_row c) \<notin> set (map first_col (rows tb))"
    proof
      assume "first_col (dim_date_row c) \<in> set (map first_col (rows tb))"
      then obtain r where r: "r \<in> set (rows tb)" "first_col r = SText (strftime c)"
        by (auto simp: first_col_dim_date_row)
      with 1(6) obtain d where d: "valid_date d" "toordinal d < toordinal c"
        "first_col r = SText (strftime d)"
        by blast
      with r have "strftime c = strftime d" by simp
      from strftime_inj [OF v(1) d(1) this] d(2) show False by simp
    qed
    have w': "db w' ''DimDate'' = Some (tb\<lparr>rows := rows tb @ [dim_date_row c]\<rparr>)"
      unfolding w'_def using 1(4,5) fresh
      by (simp add: db_exec_insert_same length_dim_date_row)
    have k: "nat (toordinal e - toordinal c + 1) = Suc (nat (toordinal e - toordinal c))"
      using le by simp
    show ?thesis
    proof (cases "add_one_day c")
      case (Inl err)
      then have over: "toordinal c + 1 > 3652059" and err: "err = OverflowError"
        by (auto simp: add_one_day_def split: if_splits)
      with le toordinal_le_max [OF v(2)] have eq: "toordinal e = 3652059" "toordinal c = toordinal e"
        by simp_all
      from True Inl w' eq err show ?thesis
        by (simp add: date_loop.simps [of c e w] w'_def days_from_to_def)
    next
      case (Inr nxt)
      then have nxt: "nxt = next_day c" and le1: "toordinal c + 1 \<le> 3652059"
        by (auto simp: add_one_day_def split: if_splits)
      have vn: "valid_date nxt"
        unfolding nxt using v(1) le1 by (rule valid_next_day)
      have on: "toordinal nxt = toordinal c + 1"
        unfolding nxt using v(1) by (rule toordinal_next_day)
      have keys: "\<forall>r \<in> set (rows (tb\<lparr>rows := rows tb @ [dim_date_row c]\<rparr>)).
          \<exists>d. valid_date d \<and> toordinal d < toordinal nxt \<and> first_col r = SText (strftime d)"
      proof
        fix r
        assume "r \<in> set (rows (tb\<lparr>rows := rows tb @ [dim_date_row c]\<rparr>))"
        then consider "r \<in> set (rows tb)" | "r = dim_date_row c"
          by auto
        then show "\<exists>d. valid_date d \<and> toordinal d < toordinal nxt \<and> first_col r = SText (strftime d)"
        proof cases
          case 1
          with \<open>\<forall>r \<in> set (rows tb). \<exists>d. valid_date d \<and> toordinal d < toordinal c \<and>
           first_col r = SText (strftime d)\<close>
          obtain d where "valid_date d" "toordinal d < toordinal c" "first_col r = SText (strftime d)"
            by blast
          with on show ?thesis
            by (intro exI [of _ d]) simp
        next
          case 2
          with v(1) on show ?thesis
            by (intro exI [of _ c]) (simp add: first_col_dim_date_row)
        qed
      qed
      have len: "length (cols (tb\<lparr>rows := rows tb @ [dim_date_row c]\<rparr>)) = 8"
        using 1(5) by simp
      from 1(1) [OF True Inr vn v(2) w' [unfolded w'_def] len keys]
      have ih: "db (snd (date_loop nxt e w')) ''DimDate'' =
           Some (tb\<lparr>rows := rows tb @ dim_date_row c # map dim_date_row (days_from_to nxt e)\<rparr>)"
        and ihe: "fst (date_loop nxt e w') =
           (if toordinal nxt \<le> toordinal e \<and> toordinal e = 3652059 then Some OverflowError else None)"
        by (simp_all add: w'_def)
      have e1: "toordinal e - (toordinal c + 1) + 1 = toordinal e - toordinal c"
        by simp
      have r: "days_from_to c e = c # days_from_to nxt e"
        unfolding days_from_to_def k nxt toordinal_next_day [OF v(1)] e1 by simp
      have c: "(toordinal nxt \<le> toordinal e \<and> toordinal e = 3652059) =
               (toordinal c \<le> toordinal e \<and> toordinal e = 3652059)"
        using on le le1 by auto
      from True Inr ih ihe show ?thesis
        unfolding r c by (simp add: date_loop.simps [of c e w] w'_def)
    qed
  qed
qed

lemma py_strptime_valid: "py_strptime v = Inr d \<Longrightarrow> valid_date d"
  by (cases v) (simp_all add: py_strptime_def strptime_valid)

lemma db_build_dim_date:
  assumes "list_all (\<lambda>t. db w t \<noteq> None) required_tables"
  shows "db (build_data_warehouse fromtimestamp w) ''DimDate'' =
         db (snd (create_dim_date fromtimestamp
               (create_dim_player_team_game (say Connected (say StartingBuild w))))) ''DimDate''"
proof -
  from assms have present: "filter (\<lambda>t. db w t = None) required_tables = []"
    by (simp add: filter_empty_conv list_all_iff)
  show ?thesis
    unfolding db_build_data_warehouse create_dimension_tables_def using present
    by (simp add: db_create_fact_tables split: option.splits)
qed

lemma dim_date_of_bounds:
  assumes mn: "select_min ''date'' ''gameinfo'' (db w) = Some min_date"
    and mx: "select_max ''date'' ''gameinfo'' (db w) = Some max_date"
    and cb: "convert_bounds fromtimestamp min_date max_date = Inr (a, b)"
    and a: "py_strptime a = Inr d1" and b: "py_strptime b = Inr d2"
    and dd: "db w ''DimDate'' = None"
  shows "db (snd (create_dim_date fromtimestamp w)) ''DimDate'' =
           Some \<lparr>cols = dim_date_columns, rows = map dim_date_row (days_from_to d1 d2)\<rparr> \<and>
         fst (create_dim_date fromtimestamp w) =
           (if toordinal d1 \<le> toordinal d2 \<and> toordinal d2 = 3652059 then Some OverflowError else None)"
proof -
  define w3 where "w3 = exec_stmt (create_table ''DimDate'' dim_date_columns) (say (Creating ''DimDate'') w)"
  have w3: "db w3 ''DimDate'' = Some \<lparr>cols = dim_date_columns, rows = []\<rparr>"
    unfolding w3_def using dd by (simp add: db_exec_create_table_same)
  have len: "length (cols \<lparr>cols = dim_date_columns, rows = []\<rparr>) = 8"
    by (simp add: dim_date_columns_def)
  have keys: "\<forall>r \<in> set (rows \<lparr>cols = dim_date_columns, rows = []\<rparr>).
      \<exists>d. valid_date d \<and> toordinal d < toordinal d1 \<and> first_col r = SText (strftime d)"
    by simp
  from date_loop_rows [OF py_strptime_valid [OF a] py_strptime_valid [OF b] w3 len keys]
  have loop: "db (snd (date_loop d1 d2 w3)) ''DimDate'' =
        Some \<lparr>cols = dim_date_columns, rows = map dim_date_row (days_from_to d1 d2)\<rparr>"
      "fst (date_loop d1 d2 w3) =
        (if toordinal d1 \<le> toordinal d2 \<and> toordinal d2 = 3652059 then Some OverflowError else None)"
    by simp_all
  obtain r x where l: "date_loop d1 d2 w3 = (r, x)"
    by (cases "date_loop d1 d2 w3")
  with loop have r: "r = (if toordinal d1 \<le> toordinal d2 \<and> toordinal d2 = 3652059 then Some OverflowError else None)"
    and x: "db x ''DimDate'' = Some \<lparr>cols = dim_date_columns, rows = map dim_date_row (days_from_to d1 d2)\<rparr>"
    by simp_all
  have "create_dim_date fromtimestamp w =
        (case r of Some e \<Rightarrow> (Some e, x) | None \<Rightarrow> (None, say CreatedAllDimensionTables x))"
    unfolding create_dim_date_bounds [OF mn mx] using cb a b l
    by (simp add: w3_def [symmetric])
  with x show ?thesis
    unfolding r by simp
qed






subsection \<open>What a build leaves\<close>

lemma db_build_missing:
  assumes "\<exists>t \<in> set required_tables. db w t = None"
  shows "db (build_data_warehouse fromtimestamp w) = db w"
proof -
  from assms have "filter (\<lambda>t. db w t = None) required_tables \<noteq> []"
    by (simp add: filter_empty_conv)
  then show ?thesis
    by (simp add: db_build_data_warehouse)
qed

lemma db_build_dim_date_local:
  assumes "list_all (\<lambda>t. db w t \<noteq> None) required_tables"
    and "list_all (\<lambda>t. db w' t \<noteq> None) required_tables"
    and g: "db w' ''gameinfo'' = db w ''gameinfo''"
  shows "db (build_data_warehouse fromtimestamp w') ''DimDate'' =
         db (build_data_warehouse fromtimestamp w) ''DimDate''"
proof -
  define p where "p = create_dim_player_team_game (say Connected (say StartingBuild w))"
  define p' where "p' = create_dim_player_team_game (say Connected (say StartingBuild w'))"
  have "db p' ''gameinfo'' = db p ''gameinfo''" "db p' ''DimDate'' = db p ''DimDate''"
    using g by (simp_all add: p_def p'_def db_create_dim_player_team_game)
  from create_dim_date_local [OF this] show ?thesis
    unfolding db_build_dim_date [OF assms(1)] db_build_dim_date [OF assms(2)] p_def p'_def
    by simp
qed

lemma db_build_fact:
  assumes "list_all (\<lambda>t. db w t \<noteq> None) required_tables"
    and ok: "fst (create_dimension_tables fromtimestamp (say Connected (say StartingBuild w))) = None"
  shows "db (build_data_warehouse fromtimestamp w) ''FactBatting'' = fact_batting_query (db w) \<and>
         db (build_data_warehouse fromtimestamp w) ''FactPitching'' = fact_pitching_query (db w) \<and>
         db (build_data_warehouse fromtimestamp w) ''FactGameOutcomes'' = fact_game_outcomes_query (db w)"
proof -
  define w1 where "w1 = say Connected (say StartingBuild w)"
  define w2 where "w2 = snd (create_dimension_tables fromtimestamp w1)"
  from assms(1) have present: "filter (\<lambda>t. db w t = None) required_tables = []"
    by (simp add: filter_empty_conv list_all_iff)
  have s: "same_sources (db w2) (db w)"
    using same_sources_after_dims [of fromtimestamp w1] by (simp add: w2_def w1_def)
  have "db (build_data_warehouse fromtimestamp w) = db (create_fact_tables w2)"
    unfolding db_build_data_warehouse w1_def [symmetric] w2_def
    using present ok by (simp add: w1_def)
  then show ?thesis
    unfolding db_create_fact_tables
    using fact_batting_query_cong [OF s] fact_pitching_query_cong [OF s]
      fact_game_outcomes_query_cong [OF s]
    by simp
qed

lemma dims_outcome_of_bounds:
  assumes mn: "select_min ''date'' ''gameinfo'' (db w) = Some min_date"
    and mx: "select_max ''date'' ''gameinfo'' (db w) = Some max_date"
    and cb: "convert_bounds fromtimestamp min_date max_date = Inr (a, b)"
    and a: "py_strptime a = Inr d1" and b: "py_strptime b = Inr d2"
  shows "fst (create_dimension_tables fromtimestamp (say Connected (say StartingBuild w))) =
           (if toordinal d1 \<le> toordinal d2 \<and> toordinal d2 = 3652059 then Some OverflowError else None)"
proof -
  define p where "p = create_dim_player_team_game (say Connected (say StartingBuild w))"
  have g: "db p ''gameinfo'' = db w ''gameinfo''" and dd: "db p ''DimDate'' = None"
    by (simp_all add: p_def db_create_dim_player_team_game)
  have mn': "select_min ''date'' ''gameinfo'' (db p) = Some min_date"
    using select_min_local [of "db p" "db w", OF g] mn by simp
  have mx': "select_max ''date'' ''gameinfo'' (db p) = Some max_date"
    using select_max_local [of "db p" "db w", OF g] mx by simp
  from dim_date_of_bounds [OF mn' mx' cb a b dd] show ?thesis
    unfolding create_dimension_tables_def p_def by simp
qed

text \<open>
  Claim C5, as the code has it. A second build, run on the database the first build left,
  leaves the same database: every table has the same rows after the second build as after
  the first. What a build leaves is fixed by the source tables: when a source table is
  missing it changes nothing; when the six exist, DimPlayer, DimTeam and DimGame are what
  their queries give on the sources (absent when the query fails), whatever was there
  before, DimDate is the same for any two databases with the same \<^verbatim>\<open>gameinfo\<close>, and, when
  the dimension stage returns normally, the three fact tables are what their queries give
  on the sources. (The function \<open>fromtimestamp\<close> of the platform is the same in all runs.)
\<close>

theorem build_idempotent:
  "db (build_data_warehouse fromtimestamp (build_data_warehouse fromtimestamp w)) =
     db (build_data_warehouse fromtimestamp w) \<and>
   ((\<exists>t \<in> set required_tables. db w t = None) \<longrightarrow>
      db (build_data_warehouse fromtimestamp w) = db w) \<and>
   ((\<forall>t \<in> set required_tables. db w t \<noteq> None) \<longrightarrow>
      db (build_data_warehouse fromtimestamp w) ''DimPlayer'' = dim_player_query (db w) \<and>
      db (build_data_warehouse fromtimestamp w) ''DimTeam'' = dim_team_query (db w) \<and>
      db (build_data_warehouse fromtimestamp w) ''DimGame'' = dim_game_query (db w) \<and>
      (\<forall>w'. (\<forall>t \<in> set required_tables. db w' t \<noteq> None) \<and> db w' ''gameinfo'' = db w ''gameinfo'' \<longrightarrow>
         db (build_data_warehouse fromtimestamp w') ''DimDate'' =
         db (build_data_warehouse fromtimestamp w) ''DimDate'') \<and>
      (fst (create_dimension_tables fromtimestamp (say Connected (say StartingBuild w))) = None \<longrightarrow>
         db (build_data_warehouse fromtimestamp w) ''FactBatting'' = fact_batting_query (db w) \<and>
         db (build_data_warehouse fromtimestamp w) ''FactPitching'' = fact_pitching_query (db w) \<and>
         db (build_data_warehouse fromtimestamp w) ''FactGameOutcomes'' =
           fact_game_outcomes_query (db w)))"
proof (intro conjI impI allI)
  show "db (build_data_warehouse fromtimestamp (build_data_warehouse fromtimestamp w)) =
     db (build_data_warehouse fromtimestamp w)"
    by (rule build_twice)
next
  assume "\<exists>t \<in> set required_tables. db w t = None"
  then show "db (build_data_warehouse fromtimestamp w) = db w"
    by (rule db_build_missing)
next
  assume "\<forall>t \<in> set required_tables. db w t \<noteq> None"
  then have p: "list_all (\<lambda>t. db w t \<noteq> None) required_tables"
    by (simp add: list_all_iff)
  from db_build_dim [OF p, of "''DimPlayer''" fromtimestamp]
  show "db (build_data_warehouse fromtimestamp w) ''DimPlayer'' = dim_player_query (db w)"
    by simp
  from db_build_dim [OF p, of "''DimTeam''" fromtimestamp]
  show "db (build_data_warehouse fromtimestamp w) ''DimTeam'' = dim_team_query (db w)"
    by simp
  from db_build_dim [OF p, of "''DimGame''" fromtimestamp]
  show "db (build_data_warehouse fromtimestamp w) ''DimGame'' = dim_game_query (db w)"
    by simp
  {
    fix w' :: world
    assume "(\<forall>t \<in> set required_tables. db w' t \<noteq> None) \<and> db w' ''gameinfo'' = db w ''gameinfo''"
    then have p': "list_all (\<lambda>t. db w' t \<noteq> None) required_tables"
      and g: "db w' ''gameinfo'' = db w ''gameinfo''"
      by (simp_all add: list_all_iff)
    from db_build_dim_date_local [OF p p' g]
    show "db (build_data_warehouse fromtimestamp w') ''DimDate'' =
         db (build_data_warehouse fromtimestamp w) ''DimDate''" .
  }
  {
    assume ok: "fst (create_dimension_tables fromtimestamp (say Connected (say StartingBuild w))) = None"
    from db_build_fact [OF p ok]
    show "db (build_data_warehouse fromtimestamp w) ''FactBatting'' = fact_batting_query (db w)"
      "db (build_data_warehouse fromtimestamp w) ''FactPitching'' = fact_pitching_query (db w)"
      "db (build_data_warehouse fromtimestamp w) ''FactGameOutcomes'' =
           fact_game_outcomes_query (db w)"
      by simp_all
  }
qed

subsection \<open>Values of the examples\<close>

lemma ex_strptime_0301: "strptime ''2021-03-01'' = Inr \<lparr>year = 2021, month = 3, day = 1\<rparr>"
  by code_simp

lemma ex_strptime_0303: "strptime ''2021-03-03'' = Inr \<lparr>year = 2021, month = 3, day = 3\<rparr>"
  by code_simp



lemma ex_strptime_1345: "strptime ''2021-13-45'' = Inl ValueError"
  by code_simp





lemma ex_min_bad_max:
  "select_min ''date'' ''gameinfo'' (ex_store ex_games_bad_max) = Some (SText ''2021-03-01'')"
  by code_simp

lemma ex_max_bad_max:
  "select_max ''date'' ''gameinfo'' (ex_store ex_games_bad_max) = Some (SText ''2021-13-45'')"
  by code_simp

lemma ex_min_empty: "select_min ''date'' ''gameinfo'' (ex_store []) = Some SNull"
  by code_simp

lemma ex_max_empty: "select_max ''date'' ''gameinfo'' (ex_store []) = Some SNull"
  by code_simp



lemma ex_ordinals:
  "toordinal \<lparr>year = 2021, month = 3, day = 3\<rparr> = 737852"
  "toordinal \<lparr>year = 2021, month = 10, day = 1\<rparr> = 738064"
  "toordinal \<lparr>year = 2021, month = 9, day = 1\<rparr> = 738034"
  by code_simp+


subsection \<open>When the date stage fails\<close>

lemma convert_bounds_text:
  "strptime s = Inr d \<Longrightarrow> convert_bounds fromtimestamp (SText s) max_date = Inr (SText s, max_date)"
  by (simp add: convert_bounds_def py_strptime_def)

lemma convert_bounds_null:
  "convert_bounds fromtimestamp SNull max_date = Inl (TypeError, SNull)"
  by (simp add: convert_bounds_def py_strptime_def)

lemma convert_bounds_bad_text:
  "strptime s = Inl e \<Longrightarrow> convert_bounds fromtimestamp (SText s) max_date = Inl (e, SText s)"
  by (simp add: convert_bounds_def py_strptime_def)

lemma create_dim_date_failed_bounds:
  assumes mn: "select_min ''date'' ''gameinfo'' (db w) = Some min_date"
    and mx: "select_max ''date'' ''gameinfo'' (db w) = Some max_date"
    and cb: "convert_bounds fromtimestamp min_date max_date = Inl (e, shown)"
  shows "fst (create_dim_date fromtimestamp w) = (if e = ValueError then None else Some e) \<and>
         db (snd (create_dim_date fromtimestamp w)) = db w"
  unfolding create_dim_date_bounds [OF mn mx] using cb by simp

lemma create_dim_date_bad_end:
  assumes mn: "select_min ''date'' ''gameinfo'' (db w) = Some min_date"
    and mx: "select_max ''date'' ''gameinfo'' (db w) = Some max_date"
    and cb: "convert_bounds fromtimestamp min_date max_date = Inr (a, b)"
    and a: "py_strptime a = Inr d1" and b: "py_strptime b = Inl e"
    and dd: "db w ''DimDate'' = None"
  shows "fst (create_dim_date fromtimestamp w) = Some e \<and>
         db (snd (create_dim_date fromtimestamp w)) ''DimDate'' =
           Some \<lparr>cols = dim_date_columns, rows = []\<rparr>"
  unfolding create_dim_date_bounds [OF mn mx] using cb a b dd
  by (simp add: db_exec_create_table_same)

lemma build_after_raise:
  assumes "list_all (\<lambda>t. db w t \<noteq> None) required_tables"
    and e: "fst (create_dimension_tables fromtimestamp (say Connected (say StartingBuild w))) = Some e"
  shows "build_data_warehouse fromtimestamp w =
           run [say (ErrorDuringBuild e), say ConnectionClosed, say BuildCompleted]
             (snd (create_dimension_tables fromtimestamp (say Connected (say StartingBuild w))))"
proof -
  from assms(1) have present: "filter (\<lambda>t. db w t = None) required_tables = []"
    by (simp add: filter_empty_conv list_all_iff)
  obtain r x where c: "create_dimension_tables fromtimestamp (say Connected (say StartingBuild w)) = (r, x)"
    by (cases "create_dimension_tables fromtimestamp (say Connected (say StartingBuild w))")
  with e have r: "r = Some e" by simp
  show ?thesis
    unfolding build_data_warehouse_def
    using present c r by (simp add: verify_source_tables_eq)
qed

text \<open>
  Claim C8, as the code has it. The test \<^verbatim>\<open>if not min_date_result or not max_date_result\<close>
  looks at the list of rows of \<^verbatim>\<open>SELECT MIN(date)\<close>, which has one row also when gameinfo
  has no date, and only the parse of \<^verbatim>\<open>min_date\<close> is inside the \<^verbatim>\<open>try\<close>, which catches
  \<^verbatim>\<open>ValueError\<close> alone. So when the least date is NULL (the bounds are missing), or when
  the least date is parsed and the greatest is not, the dimension stage raises: TypeError
  in the first case, with no DimDate, and ValueError in the second, after
  \<^verbatim>\<open>CREATE TABLE DimDate\<close>, so that an empty DimDate is left. The build prints the error,
  closes the connection and returns: nothing of the fact, index and count stages is printed
  and the three fact tables are as they were before the build.
\<close>

theorem date_stage_failure_aborts_build:
  assumes present: "list_all (\<lambda>t. db w t \<noteq> None) required_tables"
    and mn: "select_min ''date'' ''gameinfo'' (db w) = Some min_date"
    and mx: "select_max ''date'' ''gameinfo'' (db w) = Some max_date"
    and fail: "min_date = SNull \<or>
               (\<exists>s1 s2 d1. min_date = SText s1 \<and> strptime s1 = Inr d1 \<and>
                            max_date = SText s2 \<and> strptime s2 = Inl ValueError)"
  shows "fst (create_dimension_tables fromtimestamp (say Connected (say StartingBuild w))) =
           Some (if min_date = SNull then TypeError else ValueError) \<and>
         db (build_data_warehouse fromtimestamp w) ''DimDate'' =
           (if min_date = SNull then None else Some \<lparr>cols = dim_date_columns, rows = []\<rparr>) \<and>
         out (build_data_warehouse fromtimestamp w) =
           out (snd (create_dimension_tables fromtimestamp (say Connected (say StartingBuild w)))) @
           [ErrorDuringBuild (if min_date = SNull then TypeError else ValueError),
            ConnectionClosed, BuildCompleted] \<and>
         db (build_data_warehouse fromtimestamp w) ''FactBatting'' = db w ''FactBatting'' \<and>
         db (build_data_warehouse fromtimestamp w) ''FactPitching'' = db w ''FactPitching'' \<and>
         db (build_data_warehouse fromtimestamp w) ''FactGameOutcomes'' = db w ''FactGameOutcomes''"
proof -
  define w1 where "w1 = say Connected (say StartingBuild w)"
  define p where "p = create_dim_player_team_game w1"
  define err where "err = (if min_date = SNull then TypeError else ValueError)"
  have g: "db p ''gameinfo'' = db w ''gameinfo''" and dd: "db p ''DimDate'' = None"
    by (simp_all add: p_def w1_def db_create_dim_player_team_game)
  have mn': "select_min ''date'' ''gameinfo'' (db p) = Some min_date"
    using select_min_local [of "db p" "db w", OF g] mn by simp
  have mx': "select_max ''date'' ''gameinfo'' (db p) = Some max_date"
    using select_max_local [of "db p" "db w", OF g] mx by simp
  have stage: "fst (create_dim_date fromtimestamp p) = Some err \<and>
      db (snd (create_dim_date fromtimestamp p)) ''DimDate'' =
        (if min_date = SNull then None else Some \<lparr>cols = dim_date_columns, rows = []\<rparr>)"
  proof (cases "min_date = SNull")
    case True
    from create_dim_date_failed_bounds [OF mn' mx', of fromtimestamp TypeError SNull] True dd
    show ?thesis
      by (simp add: convert_bounds_null err_def)
  next
    case False
    with fail obtain s1 s2 d1 where s: "min_date = SText s1" "strptime s1 = Inr d1"
      "max_date = SText s2" "strptime s2 = Inl ValueError"
      by blast
    have cb: "convert_bounds fromtimestamp min_date max_date = Inr (SText s1, SText s2)"
      unfolding s(1,3) using s(2) by (rule convert_bounds_text)
    have a: "py_strptime (SText s1) = Inr d1" and b: "py_strptime (SText s2) = Inl ValueError"
      using s(2,4) by (simp_all add: py_strptime_def)
    from create_dim_date_bad_end [OF mn' mx' cb a b dd] False show ?thesis
      by (simp add: err_def)
  qed
  then have e: "fst (create_dimension_tables fromtimestamp w1) = Some err"
    and d: "db (snd (create_dimension_tables fromtimestamp w1)) ''DimDate'' =
        (if min_date = SNull then None else Some \<lparr>cols = dim_date_columns, rows = []\<rparr>)"
    by (simp_all add: create_dimension_tables_def p_def)
  have b: "build_data_warehouse fromtimestamp w =
           run [say (ErrorDuringBuild err), say ConnectionClosed, say BuildCompleted]
             (snd (create_dimension_tables fromtimestamp w1))"
    unfolding w1_def using present e [unfolded w1_def] by (rule build_after_raise)
  have f: "db (snd (create_dimension_tables fromtimestamp w1)) n = db w n"
    if "n \<noteq> ''DimDate''" "n \<noteq> ''DimPlayer''" "n \<noteq> ''DimTeam''" "n \<noteq> ''DimGame''" for n
    using db_create_dimension_tables_rest [OF that, of fromtimestamp w1] by (simp add: w1_def)
  from e d f [of "''FactBatting''"] f [of "''FactPitching''"] f [of "''FactGameOutcomes''"]
  show ?thesis
    unfolding b w1_def [symmetric] err_def [symmetric] by (simp add: say_def)
qed

text \<open>
  Two instances on the example database: games whose greatest date text is
  \<^verbatim>\<open>2021-13-45\<close>, and no game at all. Every line the build prints is listed.
\<close>

theorem date_stage_failure_aborts_build_witness:
  "list_all (\<lambda>t. db (ex_world ex_games_bad_max) t \<noteq> None) required_tables \<and>
   select_min ''date'' ''gameinfo'' (db (ex_world ex_games_bad_max)) = Some (SText ''2021-03-01'') \<and>
   select_max ''date'' ''gameinfo'' (db (ex_world ex_games_bad_max)) = Some (SText ''2021-13-45'') \<and>
   strptime ''2021-03-01'' = Inr \<lparr>year = 2021, month = 3, day = 1\<rparr> \<and>
   strptime ''2021-13-45'' = Inl ValueError \<and>
   db (build_data_warehouse (\<lambda>n. Inl OSError) (ex_world ex_games_bad_max)) ''DimDate'' =
     Some \<lparr>cols = dim_date_columns, rows = []\<rparr> \<and>
   out (build_data_warehouse (\<lambda>n. Inl OSError) (ex_world ex_games_bad_max)) =
     [StartingBuild, Connected, CreatingDimensionTables, Creating ''DimPlayer'',
      Creating ''DimTeam'', Creating ''DimGame'', ErrorExecutingQuery, Creating ''DimDate'',
      ErrorDuringBuild ValueError, ConnectionClosed, BuildCompleted] \<and>
   db (build_data_warehouse (\<lambda>n. Inl OSError) (ex_world ex_games_bad_max)) ''FactBatting'' = None \<and>
   db (build_data_warehouse (\<lambda>n. Inl OSError) (ex_world ex_games_bad_max)) ''FactPitching'' = None \<and>
   db (build_data_warehouse (\<lambda>n. Inl OSError) (ex_world ex_games_bad_max)) ''FactGameOutcomes'' = None \<and>
   list_all (\<lambda>t. db (ex_world []) t \<noteq> None) required_tables \<and>
   select_min ''date'' ''gameinfo'' (db (ex_world [])) = Some SNull \<and>
   select_max ''date'' ''gameinfo'' (db (ex_world [])) = Some SNull \<and>
   db (build_data_warehouse (\<lambda>n. Inl OSError) (ex_world [])) ''DimDate'' = None \<and>
   out (build_data_warehouse (\<lambda>n. Inl OSError) (ex_world [])) =
     [StartingBuild, Connected, CreatingDimensionTables, Creating ''DimPlayer'',
      Creating ''DimTeam'', Creating ''DimGame'', ErrorExecutingQuery, Creating ''DimDate'',
      ErrorDuringBuild TypeError, ConnectionClosed, BuildCompleted] \<and>
   db (build_data_warehouse (\<lambda>n. Inl OSError) (ex_world [])) ''FactBatting'' = None \<and>
   db (build_data_warehouse (\<lambda>n. Inl OSError) (ex_world [])) ''FactPitching'' = None \<and>
   db (build_data_warehouse (\<lambda>n. Inl OSError) (ex_world [])) ''FactGameOutcomes'' = None"
proof -
  have mn: "select_min ''date'' ''gameinfo'' (db (ex_world ex_games_bad_max)) = Some (SText ''2021-03-01'')"
    and mx: "select_max ''date'' ''gameinfo'' (db (ex_world ex_games_bad_max)) = Some (SText ''2021-13-45'')"
    by (simp_all add: ex_world_def ex_min_bad_max ex_max_bad_max)
  have mn0: "select_min ''date'' ''gameinfo'' (db (ex_world [])) = Some SNull"
    and mx0: "select_max ''date'' ''gameinfo'' (db (ex_world [])) = Some SNull"
    by (simp_all add: ex_world_def ex_min_empty ex_max_empty)
  have fail: "SText ''2021-03-01'' = SNull \<or>
      (\<exists>s1 s2 d1. SText ''2021-03-01'' = SText s1 \<and> strptime s1 = Inr d1 \<and>
         SText ''2021-13-45'' = SText s2 \<and> strptime s2 = Inl ValueError)"
    using ex_strptime_0301 ex_strptime_1345 by blast
  have fail0: "SNull = SNull \<or>
      (\<exists>s1 s2 d1. SNull = SText s1 \<and> strptime s1 = Inr d1 \<and>
         SNull = SText s2 \<and> strptime s2 = Inl ValueError)"
    by simp
  have o: "out (snd (create_dimension_tables (\<lambda>n. Inl OSError)
        (say Connected (say StartingBuild (ex_world ex_games_bad_max))))) =
     [StartingBuild, Connected, CreatingDimensionTables, Creating ''DimPlayer'',
      Creating ''DimTeam'', Creating ''DimGame'', ErrorExecutingQuery, Creating ''DimDate'']"
    by code_simp
  have o0: "out (snd (create_dimension_tables (\<lambda>n. Inl OSError)
        (say Connected (say StartingBuild (ex_world []))))) =
     [StartingBuild, Connected, CreatingDimensionTables, Creating ''DimPlayer'',
      Creating ''DimTeam'', Creating ''DimGame'', ErrorExecutingQuery, Creating ''DimDate'']"
    by code_simp
  have n: "db (ex_world g) ''FactBatting'' = None" "db (ex_world g) ''FactPitching'' = None"
    "db (ex_world g) ''FactGameOutcomes'' = None" for g
    by (simp_all add: ex_world_def ex_store_def)
  from date_stage_failure_aborts_build [OF ex_sources_present mn mx fail, of "\<lambda>n. Inl OSError"]
    date_stage_failure_aborts_build [OF ex_sources_present mn0 mx0 fail0, of "\<lambda>n. Inl OSError"]
    ex_sources_present [of ex_games_bad_max] ex_sources_present [of "[]"]
    mn mx mn0 mx0 ex_strptime_0301 ex_strptime_1345
  show ?thesis
    unfolding o o0 n by simp
qed

lemma build_date_warning:
  assumes present: "list_all (\<lambda>t. db w t \<noteq> None) required_tables"
    and mn: "select_min ''date'' ''gameinfo'' (db w) = Some (SText s)"
    and mx: "select_max ''date'' ''gameinfo'' (db w) = Some max_date"
    and bad: "strptime s = Inl ValueError"
  shows "fst (create_dimension_tables fromtimestamp (say Connected (say StartingBuild w))) = None \<and>
         db (build_data_warehouse fromtimestamp w) ''DimDate'' = None"
proof -
  define p where "p = create_dim_player_team_game (say Connected (say StartingBuild w))"
  have g: "db p ''gameinfo'' = db w ''gameinfo''" and dd: "db p ''DimDate'' = None"
    by (simp_all add: p_def db_create_dim_player_team_game)
  have mn': "select_min ''date'' ''gameinfo'' (db p) = Some (SText s)"
    using select_min_local [of "db p" "db w", OF g] mn by simp
  have mx': "select_max ''date'' ''gameinfo'' (db p) = Some max_date"
    using select_max_local [of "db p" "db w", OF g] mx by simp
  from create_dim_date_failed_bounds [OF mn' mx' convert_bounds_bad_text [OF bad]] dd
  show ?thesis
    unfolding db_build_dim_date [OF present] create_dimension_tables_def p_def
    by simp
qed

subsection \<open>Building twice: instances\<close>

lemma ex_stale_present: "list_all (\<lambda>t. db ex_world_stale t \<noteq> None) required_tables"
  by (simp add: required_tables_def ex_world_stale_def ex_store_def)

lemma ex_stale_min: "select_min ''date'' ''gameinfo'' (db ex_world_stale) = Some (SText ''2021-03-01'')"
  by code_simp

lemma ex_stale_max: "select_max ''date'' ''gameinfo'' (db ex_world_stale) = Some (SText ''2021-03-03'')"
  by code_simp

lemma ex_stale_dim_player_query:
  "dim_player_query (db ex_world_stale) =
     Some \<lparr>cols = ex_dim_player_cols,
           rows = [[SText ''p1'', SText ''Al Bo'', SText ''Al'', SText ''Bo'', SText ''R'', SText ''L'']]\<rparr>"
  by code_simp

lemma ex_stale_outcomes_query:
  "fact_game_outcomes_query (db ex_world_stale) =
     Some \<lparr>cols = ex_outcome_cols,
           rows = [[SText ''g1'', SText ''2021-03-01'', SInt 2021, SText ''AAA'', SText ''BBB'',
                    SInt 3, SInt 5, SInt 0, SInt 1, SInt 0, SInt 180, SInt 1000],
                   [SText ''g2'', SText ''2021-03-03'', SInt 2021, SText ''AAA'', SText ''BBB'',
                    SInt 4, SInt 4, SInt 0, SInt 0, SInt 1, SInt 200, SNull]]\<rparr>"
  by code_simp

lemma ex_stale_stage_ok:
  "fst (create_dimension_tables (\<lambda>n. Inl OSError) (say Connected (say StartingBuild ex_world_stale))) = None"
proof -
  have cb: "convert_bounds (\<lambda>n. Inl OSError) (SText ''2021-03-01'') (SText ''2021-03-03'') =
      Inr (SText ''2021-03-01'', SText ''2021-03-03'')"
    using ex_strptime_0301 by (rule convert_bounds_text)
  have a: "py_strptime (SText ''2021-03-01'') = Inr \<lparr>year = 2021, month = 3, day = 1\<rparr>"
    and b: "py_strptime (SText ''2021-03-03'') = Inr \<lparr>year = 2021, month = 3, day = 3\<rparr>"
    by (simp_all add: py_strptime_def ex_strptime_0301 ex_strptime_0303)
  from dims_outcome_of_bounds [OF ex_stale_min ex_stale_max cb a b] show ?thesis
    by (simp add: ex_ordinals)
qed

text \<open>
  An instance: the example database with leftover tables under the names DimPlayer,
  DimDate and FactGameOutcomes. The build replaces all three by what the sources give, and
  a second build changes nothing.
\<close>

theorem build_idempotent_witness:
  "list_all (\<lambda>t. db ex_world_stale t \<noteq> None) required_tables \<and>
   db ex_world_stale ''DimPlayer'' = Some ex_stale_table \<and>
   db ex_world_stale ''FactGameOutcomes'' = Some ex_stale_table \<and>
   db (build_data_warehouse (\<lambda>n. Inl OSError) (build_data_warehouse (\<lambda>n. Inl OSError) ex_world_stale)) =
     db (build_data_warehouse (\<lambda>n. Inl OSError) ex_world_stale) \<and>
   db (build_data_warehouse (\<lambda>n. Inl OSError) ex_world_stale) ''DimPlayer'' =
     Some \<lparr>cols = ex_dim_player_cols,
           rows = [[SText ''p1'', SText ''Al Bo'', SText ''Al'', SText ''Bo'', SText ''R'', SText ''L'']]\<rparr> \<and>
   db (build_data_warehouse (\<lambda>n. Inl OSError) ex_world_stale) ''DimDate'' =
     db (build_data_warehouse (\<lambda>n. Inl OSError) (ex_world ex_games)) ''DimDate'' \<and>
   db (build_data_warehouse (\<lambda>n. Inl OSError) ex_world_stale) ''FactGameOutcomes'' =
     Some \<lparr>cols = ex_outcome_cols,
           rows = [[SText ''g1'', SText ''2021-03-01'', SInt 2021, SText ''AAA'', SText ''BBB'',
                    SInt 3, SInt 5, SInt 0, SInt 1, SInt 0, SInt 180, SInt 1000],
                   [SText ''g2'', SText ''2021-03-03'', SInt 2021, SText ''AAA'', SText ''BBB'',
                    SInt 4, SInt 4, SInt 0, SInt 0, SInt 1, SInt 200, SNull]]\<rparr>"
proof -
  have h: "\<forall>t \<in> set required_tables. db ex_world_stale t \<noteq> None"
    using ex_stale_present by (simp add: list_all_iff)
  have h': "(\<forall>t \<in> set required_tables. db (ex_world ex_games) t \<noteq> None) \<and>
            db (ex_world ex_games) ''gameinfo'' = db ex_world_stale ''gameinfo''"
    by (simp add: required_tables_def ex_world_def ex_world_stale_def ex_store_def)
  have s: "db ex_world_stale ''DimPlayer'' = Some ex_stale_table"
    "db ex_world_stale ''FactGameOutcomes'' = Some ex_stale_table"
    by (simp_all add: ex_world_stale_def)
  from build_idempotent [of "\<lambda>n. Inl OSError" ex_world_stale] h h' ex_stale_stage_ok
  have "db (build_data_warehouse (\<lambda>n. Inl OSError) (build_data_warehouse (\<lambda>n. Inl OSError) ex_world_stale)) =
     db (build_data_warehouse (\<lambda>n. Inl OSError) ex_world_stale)"
    and "db (build_data_warehouse (\<lambda>n. Inl OSError) ex_world_stale) ''DimPlayer'' =
       dim_player_query (db ex_world_stale)"
    and "db (build_data_warehouse (\<lambda>n. Inl OSError) (ex_world ex_games)) ''DimDate'' =
       db (build_data_warehouse (\<lambda>n. Inl OSError) ex_world_stale) ''DimDate''"
    and "db (build_data_warehouse (\<lambda>n. Inl OSError) ex_world_stale) ''FactGameOutcomes'' =
       fact_game_outcomes_query (db ex_world_stale)"
    by blast+
  with ex_stale_present s show ?thesis
    by (simp add: ex_stale_dim_player_query ex_stale_outcomes_query)
qed

lemma ex_not_iso_min:
  "select_min ''date'' ''gameinfo'' (db (ex_world ex_games_not_iso)) = Some (SText ''04/01/2021'')"
  by code_simp

lemma ex_not_iso_max:
  "select_max ''date'' ''gameinfo'' (db (ex_world ex_games_not_iso)) = Some (SText ''04/01/2021'')"
  by code_simp

lemma ex_strptime_not_iso: "strptime ''04/01/2021'' = Inl ValueError"
  by code_simp

lemma ex_stale_missing_query:
  "dim_player_query (db ex_world_stale_missing) \<noteq> Some ex_stale_table"
  by code_simp

text \<open>
  The claim as stated says that each build drops and fully recreates every derived table.
  That fails in two ways the code provides for: with a source table missing the build
  returns before any statement, and a leftover DimPlayer stays as it was; with a game date
  that is not in ISO format the dimension stage prints its warning and returns normally,
  and DimDate, dropped at the start, is not created.
\<close>

theorem build_recreates_counterexample:
  "db ex_world_stale_missing ''fielding'' = None \<and>
   db ex_world_stale_missing ''DimPlayer'' = Some ex_stale_table \<and>
   db (build_data_warehouse (\<lambda>n. Inl OSError) ex_world_stale_missing) ''DimPlayer'' =
     Some ex_stale_table \<and>
   dim_player_query (db ex_world_stale_missing) \<noteq> Some ex_stale_table \<and>
   list_all (\<lambda>t. db (ex_world ex_games_not_iso) t \<noteq> None) required_tables \<and>
   fst (create_dimension_tables (\<lambda>n. Inl OSError)
          (say Connected (say StartingBuild (ex_world ex_games_not_iso)))) = None \<and>
   db (build_data_warehouse (\<lambda>n. Inl OSError) (ex_world ex_games_not_iso)) ''DimDate'' = None"
proof -
  have m: "db ex_world_stale_missing ''fielding'' = None"
    "db ex_world_stale_missing ''DimPlayer'' = Some ex_stale_table"
    by (simp_all add: ex_world_stale_missing_def ex_store_no_pitching_def)
  have "\<exists>t \<in> set required_tables. db ex_world_stale_missing t = None"
    using m(1) by (auto simp: required_tables_def)
  from db_build_missing [OF this, of "\<lambda>n. Inl OSError"] m(2)
  have "db (build_data_warehouse (\<lambda>n. Inl OSError) ex_world_stale_missing) ''DimPlayer'' =
     Some ex_stale_table"
    by simp
  with m ex_stale_missing_query ex_sources_present [of ex_games_not_iso]
    build_date_warning [OF ex_sources_present ex_not_iso_min ex_not_iso_max ex_strptime_not_iso,
      of "\<lambda>n. Inl OSError"]
  show ?thesis
    by simp
qed

subsection \<open>The rows of the date dimension\<close>






end
